theory Spec2Isabelle
  imports Complex_Main
begin

section \<open>Errors\<close>

text \<open>
  The exceptions the engine can raise: the explicit \<^verbatim>\<open>ValueError\<close>s of the user store and
  of \<^verbatim>\<open>recommend_outfits\<close>, \<^verbatim>\<open>KeyError\<close> of a dictionary lookup, \<^verbatim>\<open>IndexError\<close> of
  \<^verbatim>\<open>random.choice\<close> on an empty sequence and \<^verbatim>\<open>ZeroDivisionError\<close> of \<^verbatim>\<open>idx % 0\<close>.
\<close>

datatype error = ValueError string | KeyError string | IndexError | ZeroDivisionError

section \<open>The user store\<close>

text \<open>
  \<^verbatim>\<open>USER_DB\<close> is a module-level dictionary from user names to a record with
  the password hash and the preferences. The model passes the dictionary explicitly and
  returns the updated one. The preferences the engine reads are \<^verbatim>\<open>age_group\<close> and
  \<^verbatim>\<open>gender\<close>. \<^verbatim>\<open>hashlib.sha256\<close> is a library function and is taken as the
  parameter \<open>sha\<close>.
\<close>

record preferences =
  pref_age_group :: string
  pref_gender :: string

record user =
  password_hash :: string
  preferences :: preferences

type_synonym user_db = "string \<rightharpoonup> user"

definition hash_password :: "(string \<Rightarrow> string) \<Rightarrow> string \<Rightarrow> string" where
  "hash_password sha password = sha password"

definition default_preferences :: preferences where
  "default_preferences = \<lparr>pref_age_group = ''adult'', pref_gender = ''unisex''\<rparr>"

definition register_user ::
  "(string \<Rightarrow> string) \<Rightarrow> user_db \<Rightarrow> string \<Rightarrow> string \<Rightarrow> preferences option \<Rightarrow> error + user_db" where
  "register_user sha USER_DB username password prefs =
     (if username \<in> dom USER_DB then Inl (ValueError ''User already exists'')
      else Inr (USER_DB(username \<mapsto>
             \<lparr>password_hash = hash_password sha password,
              preferences = (case prefs of None \<Rightarrow> default_preferences | Some p \<Rightarrow> p)\<rparr>)))"

definition authenticate_user :: "(string \<Rightarrow> string) \<Rightarrow> user_db \<Rightarrow> string \<Rightarrow> string \<Rightarrow> bool" where
  "authenticate_user sha USER_DB username password =
     (case USER_DB username of
        None \<Rightarrow> False
      | Some u \<Rightarrow> password_hash u = hash_password sha password)"

definition get_user_preferences :: "user_db \<Rightarrow> string \<Rightarrow> error + preferences" where
  "get_user_preferences USER_DB username =
     (case USER_DB username of
        None \<Rightarrow> Inl (KeyError username)
      | Some u \<Rightarrow> Inr (preferences u))"

definition set_user_preferences :: "user_db \<Rightarrow> string \<Rightarrow> preferences \<Rightarrow> user_db" where
  "set_user_preferences USER_DB username prefs =
     (case USER_DB username of
        None \<Rightarrow> USER_DB
      | Some u \<Rightarrow> USER_DB(username \<mapsto> u\<lparr>preferences := prefs\<rparr>))"

section \<open>Strings\<close>

text \<open>
  Python strings are modelled as \<open>string\<close> (a list of 8-bit characters); the prompts the
  model covers are ASCII. \<^verbatim>\<open>str.lower\<close> maps \<^verbatim>\<open>A..Z\<close> to \<^verbatim>\<open>a..z\<close> and leaves
  every other ASCII character alone.
\<close>

definition lower_char :: "char \<Rightarrow> char" where
  "lower_char c =
     (case map_of (zip ''ABCDEFGHIJKLMNOPQRSTUVWXYZ'' ''abcdefghijklmnopqrstuvwxyz'') c of
        None \<Rightarrow> c
      | Some d \<Rightarrow> d)"

definition lower :: "string \<Rightarrow> string" where
  "lower s = map lower_char s"

text \<open>The regular-expression classes \<^verbatim>\<open>\w\<close> and \<^verbatim>\<open>\s\<close> on ASCII characters.\<close>

definition is_word_char :: "char \<Rightarrow> bool" where
  "is_word_char c \<longleftrightarrow>
     c \<in> set ''abcdefghijklmnopqrstuvwxyzABCDEFGHIJKLMNOPQRSTUVWXYZ0123456789_''"

definition is_space :: "char \<Rightarrow> bool" where
  "is_space c \<longleftrightarrow>
     c \<in> set [CHR '' '', CHR 0x09, CHR 0x0A, CHR 0x0B, CHR 0x0C, CHR 0x0D,
               CHR 0x1C, CHR 0x1D, CHR 0x1E, CHR 0x1F]"

fun starts_with :: "string \<Rightarrow> string \<Rightarrow> bool" where
  "starts_with [] s = True"
| "starts_with (p # ps) [] = False"
| "starts_with (p # ps) (c # cs) = (p = c \<and> starts_with ps cs)"

text \<open>\<^verbatim>\<open>sub in s\<close>: the substring test.\<close>

fun str_in :: "string \<Rightarrow> string \<Rightarrow> bool" where
  "str_in sub [] = (sub = [])"
| "str_in sub (c # cs) = (starts_with sub (c # cs) \<or> str_in sub cs)"

text \<open>
  \<^verbatim>\<open>s.replace(old, new)\<close>: every non-overlapping occurrence of \<open>old\<close>, from the left.
  With an empty \<open>old\<close> Python puts \<open>new\<close> before every character and at the end.
\<close>

fun replace :: "string \<Rightarrow> string \<Rightarrow> string \<Rightarrow> string" where
  "replace old new [] = (if old = [] then new else [])"
| "replace old new (c # cs) =
     (if old = [] then new @ c # replace old new cs
      else if starts_with old (c # cs) then new @ replace old new (drop (length old - 1) cs)
      else c # replace old new cs)"

text \<open>\<^verbatim>\<open>sep.join(xs)\<close>.\<close>

fun join :: "string \<Rightarrow> string list \<Rightarrow> string" where
  "join sep [] = []"
| "join sep [x] = x"
| "join sep (x # y # ys) = x @ sep @ join sep (y # ys)"

section \<open>Regular expressions of the prompt interpreter\<close>

text \<open>
  \<^verbatim>\<open>re.findall\<close> scans the string from the left; at each position it tries to match,
  and after a match it goes on from the end of the match. The scan is written once, over a
  function \<open>m\<close> that tries the pattern at the current position: \<open>m prev s\<close> sees the
  character before the position (for \<^verbatim>\<open>\b\<close>) and the rest of the string, and returns the
  captured group and the length of the whole match. None of the patterns of this program
  matches the empty string.
\<close>

definition word_boundary :: "char option \<Rightarrow> char option \<Rightarrow> bool" where
  "word_boundary prev nxt \<longleftrightarrow>
     (case prev of None \<Rightarrow> False | Some c \<Rightarrow> is_word_char c)
       \<noteq> (case nxt of None \<Rightarrow> False | Some c \<Rightarrow> is_word_char c)"

definition first_char :: "string \<Rightarrow> char option" where
  "first_char s = (case s of [] \<Rightarrow> None | c # _ \<Rightarrow> Some c)"

function findall :: "(char option \<Rightarrow> string \<Rightarrow> (string \<times> nat) option) \<Rightarrow> char option \<Rightarrow> string \<Rightarrow> string list" where
  "findall m prev [] = []"
| "findall m prev (c # cs) =
     (case m prev (c # cs) of
        None \<Rightarrow> findall m (Some c) cs
      | Some (g, n) \<Rightarrow>
          if 0 < n \<and> n \<le> length (c # cs)
          then g # findall m (Some ((c # cs) ! (n - 1))) (drop n (c # cs))
          else findall m (Some c) cs)"
  by pat_completeness auto
termination
  by (relation "measure (\<lambda>(m, prev, s). length s)") auto

text \<open>
  \<^verbatim>\<open>\b(?:k1|k2|...)\s+(\w+)\<close>: a word boundary, the first keyword (in the order written)
  after which the rest matches, then white space (one or more, greedy), then the captured
  word (one or more word characters, greedy). A shorter run of white space or of word
  characters never helps the match, so greedy matching needs no backtracking here.
\<close>

definition after_keyword :: "string \<Rightarrow> string \<Rightarrow> (string \<times> nat) option" where
  "after_keyword k s =
     (if starts_with k s then
        (let rest = drop (length k) s;
             sp = takeWhile is_space rest;
             w = takeWhile is_word_char (dropWhile is_space rest)
         in if sp \<noteq> [] \<and> w \<noteq> [] then Some (w, length k + length sp + length w) else None)
      else None)"

fun first_match :: "('a \<Rightarrow> 'b option) \<Rightarrow> 'a list \<Rightarrow> 'b option" where
  "first_match f [] = None"
| "first_match f (k # ks) = (case f k of None \<Rightarrow> first_match f ks | Some r \<Rightarrow> Some r)"

definition keyword_then_word :: "string list \<Rightarrow> char option \<Rightarrow> string \<Rightarrow> (string \<times> nat) option" where
  "keyword_then_word ks prev s =
     (if word_boundary prev (first_char s) then first_match (\<lambda>k. after_keyword k s) ks else None)"

text \<open>
  \<^verbatim>\<open>\b(k1|k2|...)\b\<close>: a word boundary, the first key (in the order written) that the
  string starts with and that ends at a word boundary.
\<close>

definition whole_key :: "char option \<Rightarrow> string \<Rightarrow> string \<Rightarrow> (string \<times> nat) option" where
  "whole_key prev s k =
     (if k \<noteq> [] \<and> starts_with k s \<and> word_boundary (Some (last k)) (first_char (drop (length k) s))
      then Some (k, length k) else None)"

definition whole_word_key :: "string list \<Rightarrow> char option \<Rightarrow> string \<Rightarrow> (string \<times> nat) option" where
  "whole_word_key ks prev s =
     (if word_boundary prev (first_char s) then first_match (whole_key prev s) ks else None)"

section \<open>The occasion tables\<close>

text \<open>
  The two module-level dictionaries, as association lists in the order they are written
  (a Python dictionary keeps insertion order, and the regular expression for occasions
  lists the keys in that order).
\<close>

definition OCCASION_STYLES :: "(string \<times> string list) list" where
  "OCCASION_STYLES =
     [(''interview'', [''formal'']),
      (''business meeting'', [''formal'']),
      (''office'', [''formal'', ''semi-formal'']),
      (''office party'', [''semi-formal'', ''party'']),
      (''office ethnic day'', [''ethnic'']),
      (''college ethnic day'', [''ethnic'']),
      (''ethnic day'', [''ethnic'']),
      (''wedding'', [''party'']),
      (''ritual'', [''ethnic'', ''traditional'']),
      (''home ritual'', [''ethnic'', ''traditional'']),
      (''ceremony'', [''ethnic'', ''formal'']),
      (''temple visit'', [''ethnic'', ''traditional'']),
      (''birthday party'', [''party'']),
      (''party'', [''party'']),
      (''casual outing'', [''casual'', ''shopping'', ''picnic'']),
      (''picnic'', [''casual'', ''comfortable'', ''picnic'', ''shopping'']),
      (''shopping'', [''casual'', ''shopping'', ''picnic'']),
      (''date'', [''party'', ''smart-casual'']),
      (''beach party'', [''party'', ''summerwear'']),
      (''kids party'', [''colorful'', ''casual'']),
      (''kids outing'', [''casual'', ''comfortable'']),
      (''family outing'', [''casual'', ''semi-formal'']),
      (''family gathering'', [''casual'', ''ethnic'', ''semi-formal'']),
      (''school'', [''uniform'', ''casual'']),
      (''school function'', [''ethnic'', ''formal'']),
      (''tuition'', [''casual'']),
      (''cooking'', [''comfortable'']),
      (''swimming'', [''swim'', ''swimwear'', ''swiming'']),
      (''sports'', [''gym'', ''yoga'', ''camping'', ''trekking'', ''running'', ''hiking'']),
      (''gym'', [''yoga'', ''hiking'', ''camping'', ''trekking'', ''running'']),
      (''exercise'', [''gym'', ''yoga'', ''hiking'', ''camping'', ''trekking'', ''running'']),
      (''yoga'', [''gym'', ''hiking'', ''camping'', ''trekking'', ''running'']),
      (''meditation'', [''yoga'']),
      (''hiking'', [''gym'', ''yoga'', ''camping'', ''trekking'', ''running'']),
      (''camping'', [''gym'', ''yoga'', ''hiking'', ''trekking'', ''running'']),
      (''trekking'', [''gym'', ''yoga'', ''camping'', ''hiking'', ''running'']),
      (''mountain climbing'', [''gym'', ''yoga'', ''camping'', ''trekking'', ''running'', ''hiking'']),
      (''gardening'', [''casual'', ''camping''])]"

definition OCCASION_SYNONYMS :: "(string \<times> string list) list" where
  "OCCASION_SYNONYMS =
     [(''party'', [''birthday party'', ''beach party'', ''wedding'', ''date'', ''office party'', ''officeparty'']),
      (''gym'', [''yoga'', ''hiking'', ''camping'', ''trekking'', ''running'', ''exercise'']),
      (''shopping'', [''mall'', ''buying clothes'', ''store visit'']),
      (''picnic'', [''outdoor fun'', ''park outing''])]"

text \<open>\<^verbatim>\<open>OCCASION_STYLES.get(occ, [occ])\<close>.\<close>

definition styles_of :: "string \<Rightarrow> string list" where
  "styles_of occ = (case map_of OCCASION_STYLES occ of None \<Rightarrow> [occ] | Some v \<Rightarrow> v)"

section \<open>The prompt interpreter\<close>

text \<open>
  A Python \<^verbatim>\<open>set\<close> of strings is modelled as a list without duplicates, in insertion
  order. Python leaves the iteration order of a set unspecified (it follows the string
  hashes), so only the elements of such a list, not their order, are meaningful; the
  engine itself only tests membership in these collections and joins the occasions for
  display.
\<close>

definition set_add :: "'a \<Rightarrow> 'a list \<Rightarrow> 'a list" where
  "set_add x xs = (if x \<in> set xs then xs else xs @ [x])"

definition color_keywords :: "string list" where
  "color_keywords = [''in'', ''with'', ''wearing'', ''colour'', ''color'', ''shade of'']"

definition avoid_keywords :: "string list" where
  "avoid_keywords = [''avoid'', ''not'', ''no'', ''don't want'', ''skip'']"

definition normalize_avoid :: "string \<Rightarrow> string" where
  "normalize_avoid a =
     replace ''beige'' ''white'' (replace ''ivory'' ''white'' (replace ''cream'' ''white''
       (replace ''off-white'' ''white'' (replace ''offwhite'' ''white'' a))))"

definition normalize_swim :: "string \<Rightarrow> string" where
  "normalize_swim prompt =
     replace '' swim'' '' swimming'' (replace ''swim '' ''swimming ''
       (replace ''swiming'' ''swimming'' prompt))"

definition office_ethnic_patterns :: "string list" where
  "office_ethnic_patterns =
     [''office ethnic'', ''office traditional'', ''office cultural'',
      ''office ethnic day'', ''office traditional day'', ''office cultural day'']"

definition outing_words :: "string list" where
  "outing_words = [''outing'', ''walk'', ''park'', ''shopping'', ''picnic'']"

text \<open>
  The occasions of a prompt that is already lower-cased and swim-normalised: the matches
  of the regular expression, then every key that is a substring and not yet in the list,
  then the synonym expansion, the forced ethnic occasions and the \<^verbatim>\<open>casual\<close> fallback.
  The result is the set \<^verbatim>\<open>expanded\<close>.
\<close>

definition expand_occasions :: "string \<Rightarrow> string list" where
  "expand_occasions prompt =
     (let force_ethnic = list_ex (\<lambda>pat. str_in pat prompt) office_ethnic_patterns;
          force_ethnic_general = list_ex (\<lambda>word. str_in word prompt) [''ethnic'', ''traditional'', ''cultural''];
          occasions = findall (whole_word_key (map fst OCCASION_STYLES)) None prompt;
          occasions = fold (\<lambda>k occs. if k \<notin> set occs \<and> str_in k prompt then occs @ [k] else occs)
                        (map fst OCCASION_STYLES) occasions;
          expanded = remdups occasions;
          expanded = fold (\<lambda>(k, v) e. fold (\<lambda>syn e. if str_in syn prompt then set_add k e else e) v e)
                       OCCASION_SYNONYMS expanded;
          expanded = fold (\<lambda>occ e. fold (\<lambda>(k, v) e. if occ \<in> set v then set_add k e else e)
                                     OCCASION_SYNONYMS e)
                       occasions expanded;
          expanded = (if force_ethnic \<or> force_ethnic_general
                      then fold set_add [''ethnic day'', ''ethnic'', ''traditional''] expanded
                      else expanded)
      in if expanded = [] then
           (if list_ex (\<lambda>word. str_in word prompt) outing_words then set_add ''casual'' expanded
            else expanded)
         else expanded)"

text \<open>
  \<^verbatim>\<open>extract_prompt_requirements\<close> returns the requested colours, the occasions, the
  colours to avoid and the layering flag.
\<close>

definition extract_prompt_requirements :: "string \<Rightarrow> string list \<times> string list \<times> string list \<times> bool" where
  "extract_prompt_requirements prompt0 =
     (let prompt = lower prompt0;
          colors = findall (keyword_then_word color_keywords) None prompt;
          avoid = findall (keyword_then_word avoid_keywords) None prompt;
          avoid = map normalize_avoid avoid;
          prompt = normalize_swim prompt;
          expanded = expand_occasions prompt;
          needs_layer = (str_in ''layer'' prompt \<or> str_in ''cold'' prompt)
      in (remdups colors, (if expanded = [] then [''general''] else expanded), remdups avoid, needs_layer))"

section \<open>The context\<close>

text \<open>
  \<^verbatim>\<open>get_context\<close> reads the wall clock. The model takes the hour (0 to 23) and the month
  (1 to 12) that \<^verbatim>\<open>datetime.datetime.now()\<close> returned.
\<close>

record clock =
  hour :: nat
  month :: nat

record ctx =
  time :: string
  season :: string

definition get_context :: "clock \<Rightarrow> ctx" where
  "get_context now =
     \<lparr>time = (if hour now < 12 then ''morning'' else if hour now < 17 then ''afternoon'' else ''evening''),
      season = (if month now \<in> set [12, 1, 2] then ''winter''
                else if month now \<in> set [3, 4, 5] then ''summer'' else ''monsoon'')\<rparr>"

section \<open>The wardrobe and the colour matcher\<close>

text \<open>
  A wardrobe item after loading: \<^verbatim>\<open>__init__\<close> has filled in the missing optional
  fields, so every item has all six.
\<close>

record item =
  name :: string
  category :: string
  tags :: "string list"
  age_group :: string
  gender :: string
  image_ref :: string

definition filter_by_profile :: "item list \<Rightarrow> preferences \<Rightarrow> item list" where
  "filter_by_profile items profile =
     filter (\<lambda>item. age_group item \<in> set [''all'', pref_age_group profile]
                    \<and> gender item \<in> set [''unisex'', pref_gender profile]) items"

text \<open>
  \<^verbatim>\<open>_color_distance\<close> looks both names up in its table of RGB triples (grey for an
  unknown name) and hands them to the colormath library: conversion to Lab and
  \<^verbatim>\<open>delta_e_cie2000\<close>. The library's part, a function from two RGB triples to a float, is
  the parameter \<open>delta\<close> of the model.
\<close>

type_synonym rgb = "nat \<times> nat \<times> nat"

definition css_colors :: "(string \<times> rgb) list" where
  "css_colors =
     [(''red'', (255, 0, 0)), (''blue'', (0, 0, 255)), (''green'', (0, 128, 0)), (''black'', (0, 0, 0)),
      (''white'', (255, 255, 255)), (''pink'', (255, 192, 203)), (''gray'', (128, 128, 128)),
      (''yellow'', (255, 255, 0)), (''purple'', (128, 0, 128)), (''orange'', (255, 165, 0)),
      (''brown'', (139, 69, 19)), (''navy'', (0, 0, 128)), (''gold'', (255, 215, 0))]"

definition to_rgb :: "string \<Rightarrow> rgb" where
  "to_rgb color = (case map_of css_colors color of None \<Rightarrow> (128, 128, 128) | Some c \<Rightarrow> c)"

definition color_distance :: "(rgb \<Rightarrow> rgb \<Rightarrow> real) \<Rightarrow> string \<Rightarrow> string \<Rightarrow> real" where
  "color_distance delta color1 color2 = delta (to_rgb color1) (to_rgb color2)"

definition color_terms :: "string list" where
  "color_terms =
     [''red'', ''blue'', ''green'', ''black'', ''white'', ''pink'', ''gray'', ''yellow'',
      ''purple'', ''orange'', ''brown'', ''navy'', ''gold'', ''cream'', ''ivory'', ''offwhite'', ''beige'']"

definition color_match :: "(rgb \<Rightarrow> rgb \<Rightarrow> real) \<Rightarrow> string list \<Rightarrow> string list \<Rightarrow> string list \<Rightarrow> bool" where
  "color_match delta item_tags requested_colors forbidden_colors =
     (let color_tags = filter (\<lambda>tag. tag \<in> set color_terms) item_tags
      in if list_ex (\<lambda>tag. list_ex (\<lambda>fc. color_distance delta tag fc < 15) forbidden_colors) color_tags
         then False
         else if requested_colors \<noteq> []
         then list_ex (\<lambda>rc. list_ex (\<lambda>tag. color_distance delta tag rc < 15) color_tags) requested_colors
         else True)"

section \<open>The random source\<close>

text \<open>
  \<^verbatim>\<open>random.choice\<close> and \<^verbatim>\<open>random.shuffle\<close> read the module's random generator. The
  model threads the generator's future output through the computation: a list of the
  numbers it will draw (after the end of the list every draw is 0). A computation takes
  that list and either raises or returns its value and the rest of the list, so a seeded
  generator is one fixed list.
\<close>

type_synonym rng = "nat list"

type_synonym 'a rand = "rng \<Rightarrow> error + ('a \<times> rng)"

definition rret :: "'a \<Rightarrow> 'a rand" where
  "rret x r = Inr (x, r)"

definition rraise :: "error \<Rightarrow> 'a rand" where
  "rraise e r = Inl e"

definition rbind :: "'a rand \<Rightarrow> ('a \<Rightarrow> 'b rand) \<Rightarrow> 'b rand" where
  "rbind m f r = (case m r of Inl e \<Rightarrow> Inl e | Inr (x, r') \<Rightarrow> f x r')"

definition next_draw :: "rng \<Rightarrow> nat \<times> rng" where
  "next_draw r = (case r of [] \<Rightarrow> (0, []) | k # r' \<Rightarrow> (k, r'))"

text \<open>\<^verbatim>\<open>random.choice(seq)\<close> raises \<^verbatim>\<open>IndexError\<close> on an empty sequence.\<close>

definition choice :: "'a list \<Rightarrow> 'a rand" where
  "choice xs r =
     (if xs = [] then Inl IndexError
      else (case next_draw r of (k, r') \<Rightarrow> Inr (xs ! (k mod length xs), r')))"

text \<open>
  \<^verbatim>\<open>random.shuffle(x)\<close>: for \<open>i\<close> from \<open>len(x) - 1\<close> down to 1, draw \<open>j\<close> below
  \<open>i + 1\<close> and swap \<open>x[i]\<close> and \<open>x[j]\<close>.
\<close>

fun shuffle_from :: "nat \<Rightarrow> 'a list \<Rightarrow> rng \<Rightarrow> 'a list \<times> rng" where
  "shuffle_from 0 xs r = (xs, r)"
| "shuffle_from (Suc i) xs r =
     (case next_draw r of (k, r') \<Rightarrow>
        (let j = k mod (Suc i + 1)
         in shuffle_from i (xs[Suc i := xs ! j, j := xs ! Suc i]) r'))"

definition shuffle :: "'a list \<Rightarrow> 'a list rand" where
  "shuffle xs r = Inr (shuffle_from (length xs - 1) xs r)"

text \<open>
  A \<^verbatim>\<open>for\<close> loop over a list, with the loop's variables as the state \<open>st\<close>. The body
  says how the iteration ended: it fell through or hit \<^verbatim>\<open>continue\<close> (\<open>Next\<close>), hit
  \<^verbatim>\<open>break\<close> (\<open>Break\<close>), or hit a \<^verbatim>\<open>return\<close> of the enclosing function (\<open>Return\<close>). The loop
  itself ends with \<open>Next\<close> or, when its body returned, with \<open>Return\<close>.
\<close>

datatype ctl = Next | Break | Return

fun for_each :: "'a list \<Rightarrow> ('a \<Rightarrow> 's \<Rightarrow> (ctl \<times> 's) rand) \<Rightarrow> 's \<Rightarrow> (ctl \<times> 's) rand" where
  "for_each [] body st = rret (Next, st)"
| "for_each (x # xs) body st =
     rbind (body x st)
       (\<lambda>(c, st'). case c of
                     Next \<Rightarrow> for_each xs body st'
                   | Break \<Rightarrow> rret (Next, st')
                   | Return \<Rightarrow> rret (Return, st'))"

section \<open>Outfits and results\<close>

record outfit =
  otype :: string
  oitems :: "item list"

definition mk_outfit :: "string \<Rightarrow> item list \<Rightarrow> outfit" where
  "mk_outfit ty its = \<lparr>otype = ty, oitems = its\<rparr>"

definition none_outfit :: outfit where
  "none_outfit = mk_outfit ''none'' []"

record result =
  user :: string
  occasion :: string
  context_r :: ctx
  outfits :: "outfit list"

definition mk_result :: "string \<Rightarrow> string list \<Rightarrow> ctx \<Rightarrow> outfit list \<Rightarrow> result" where
  "mk_result username occasions context' outfits' =
     \<lparr>user = username, occasion = join '', '' occasions, context_r = context', outfits = outfits'\<rparr>"

text \<open>\<^verbatim>\<open>xs[:n]\<close> for a Python integer \<open>n\<close>: a negative \<open>n\<close> counts from the end.\<close>

definition slice_to :: "int \<Rightarrow> 'a list \<Rightarrow> 'a list" where
  "slice_to n xs = (if 0 \<le> n then take (nat n) xs else take (length xs - nat (- n)) xs)"

section \<open>Candidate lists\<close>

text \<open>
  The local function \<^verbatim>\<open>filter_category(cat, gender=None)\<close>; the gender filter applies
  when the argument is given and is not the empty string.
\<close>

definition filter_category :: "item list \<Rightarrow> string \<Rightarrow> string option \<Rightarrow> item list" where
  "filter_category items cat gender' =
     (let cat_items = filter (\<lambda>i. category i = cat) items
      in case gender' of
           None \<Rightarrow> cat_items
         | Some g \<Rightarrow> if g \<noteq> [] then filter (\<lambda>i. gender i \<in> set [g, ''unisex'']) cat_items
                     else cat_items)"

text \<open>The local function \<^verbatim>\<open>color_matched(items)\<close>.\<close>

definition color_matched :: "(rgb \<Rightarrow> rgb \<Rightarrow> real) \<Rightarrow> string list \<Rightarrow> string list \<Rightarrow> item list \<Rightarrow> item list" where
  "color_matched delta colors avoid its =
     (if colors \<noteq> [] then filter (\<lambda>i. color_match delta (tags i) colors avoid) its else [])"

text \<open>\<^verbatim>\<open>any(tag in ts for tag in i["tags"])\<close>.\<close>

definition any_tag_in :: "string list \<Rightarrow> item \<Rightarrow> bool" where
  "any_tag_in ts i = list_ex (\<lambda>tag. tag \<in> set ts) (tags i)"

definition style_tags_of :: "string list \<Rightarrow> string list" where
  "style_tags_of occasions = concat (map styles_of occasions) @ occasions"

definition ethnic_style :: "string list \<Rightarrow> bool" where
  "ethnic_style style_tags \<longleftrightarrow> set [''ethnic'', ''traditional''] \<inter> set style_tags \<noteq> {}"

definition strictly_formal :: "string list \<Rightarrow> bool" where
  "strictly_formal occasions = list_all (\<lambda>occ. occ \<in> set [''office'', ''business meeting'', ''interview'']) occasions"

definition active_occasions :: "string list" where
  "active_occasions = [''gym'', ''hiking'', ''trekking'', ''yoga'', ''exercise'', ''camping'']"

definition is_active :: "string list \<Rightarrow> bool" where
  "is_active occasions = list_ex (\<lambda>occ. occ \<in> set active_occasions) occasions"

definition is_swimming :: "string list \<Rightarrow> string list \<Rightarrow> bool" where
  "is_swimming occasions style_tags \<longleftrightarrow> ''swimming'' \<in> set occasions \<or> ''swimming'' \<in> set style_tags"

definition is_party :: "string list \<Rightarrow> bool" where
  "is_party occasions \<longleftrightarrow>
     ''party'' \<in> set occasions \<or> ''office party'' \<in> set occasions \<or> ''beach party'' \<in> set occasions"

text \<open>
  Lines 273 to 302 of the source narrow the tops and, with the same steps, the bottoms:
  the style filter (both branches of the \<^verbatim>\<open>strict_casual_filter\<close> test), the fallback to
  the whole list, the forbidden colours, and the ethnic narrowing.
\<close>

definition select_by_style :: "(rgb \<Rightarrow> rgb \<Rightarrow> real) \<Rightarrow> string list \<Rightarrow> string list \<Rightarrow> item list \<Rightarrow> item list" where
  "select_by_style delta style_tags avoid all_items =
     (let strict_casual_filter =
            (set style_tags \<inter> set [''casual'', ''comfortable'', ''picnic'', ''shopping''] \<noteq> {});
          xs = (if strict_casual_filter
                then filter (\<lambda>t. set (tags t) \<inter> set style_tags \<noteq> {}) all_items
                else filter (\<lambda>t. list_ex (\<lambda>tag. tag \<in> set style_tags) (tags t)) all_items);
          xs = (if xs = [] then all_items else xs);
          xs = (if avoid \<noteq> [] then filter (\<lambda>t. color_match delta (tags t) [] avoid) xs else xs)
      in if ''ethnic'' \<in> set style_tags \<or> ''traditional'' \<in> set style_tags
         then (let filtered_xs = filter (any_tag_in [''ethnic'', ''traditional'']) xs
               in if filtered_xs \<noteq> [] then filtered_xs else xs)
         else xs)"

section \<open>The swimming branch\<close>

definition swim_outfit :: "item \<Rightarrow> outfit" where
  "swim_outfit sw = mk_outfit ''swimwear'' [sw]"

fun swim_fill :: "item list \<Rightarrow> string list \<Rightarrow> outfit list \<Rightarrow> outfit list" where
  "swim_fill [] used_names outfits' = outfits'"
| "swim_fill (sw # rest) used_names outfits' =
     (let (used_names, outfits') =
            (if name sw \<notin> set used_names then (name sw # used_names, outfits' @ [swim_outfit sw])
             else (used_names, outfits'))
      in if length outfits' = 3 then outfits' else swim_fill rest used_names outfits')"

function pad_none :: "outfit list \<Rightarrow> outfit list" where
  "pad_none outfits' = (if length outfits' < 3 then pad_none (outfits' @ [none_outfit]) else outfits')"
  by pat_completeness auto
termination
  by (relation "measure (\<lambda>outfits'. 3 - length outfits')") auto

declare pad_none.simps [simp del]

definition swimming_outfits :: "(rgb \<Rightarrow> rgb \<Rightarrow> real) \<Rightarrow> string list \<Rightarrow> string list \<Rightarrow> item list \<Rightarrow> outfit list" where
  "swimming_outfits delta colors avoid swimwear_items =
     (let color_matched_swimwear =
            (if colors \<noteq> [] then filter (\<lambda>i. color_match delta (tags i) colors avoid) swimwear_items
             else []);
          outfits' = map swim_outfit color_matched_swimwear;
          outfits' = (if length outfits' < 3
                      then swim_fill swimwear_items (map name color_matched_swimwear) outfits'
                      else outfits')
      in pad_none outfits')"

section \<open>The early active branch\<close>

definition relevant :: "string list \<Rightarrow> item list \<Rightarrow> item list" where
  "relevant style_tags its =
     filter (\<lambda>t. list_ex (\<lambda>tag. tag \<in> set style_tags \<or> tag \<in> set active_occasions) (tags t)) its"

text \<open>
  \<^verbatim>\<open>while len(outfits) < 3: t, b = pairs_to_use[idx % len(pairs_to_use)]\<close>: with no pair
  the modulus raises \<^verbatim>\<open>ZeroDivisionError\<close>.
\<close>

function cycle_pairs :: "(item \<times> item) list \<Rightarrow> nat \<Rightarrow> outfit list \<Rightarrow> error + outfit list" where
  "cycle_pairs pairs_to_use idx outfits' =
     (if length outfits' < 3 then
        (if length pairs_to_use = 0 then Inl ZeroDivisionError
         else (case pairs_to_use ! (idx mod length pairs_to_use) of
                 (t, b) \<Rightarrow> cycle_pairs pairs_to_use (idx + 1) (outfits' @ [mk_outfit ''multi_piece'' [t, b]])))
      else Inr outfits')"
  by pat_completeness auto
termination
  by (relation "measure (\<lambda>(pairs_to_use, idx, outfits'). 3 - length outfits')") auto

declare cycle_pairs.simps [simp del]

definition active_outfits ::
  "(rgb \<Rightarrow> rgb \<Rightarrow> real) \<Rightarrow> string list \<Rightarrow> string list \<Rightarrow> string list \<Rightarrow> item list \<Rightarrow> item list \<Rightarrow> error + outfit list" where
  "active_outfits delta colors avoid style_tags tops bottoms =
     (let relevant_tops = relevant style_tags tops;
          relevant_bottoms = relevant style_tags bottoms;
          all_pairs = List.product relevant_tops relevant_bottoms;
          pairs_to_use =
            (if colors \<noteq> [] then
               (let color_pairs = filter (\<lambda>(t, b). color_match delta (tags t) colors avoid
                                                  \<or> color_match delta (tags b) colors avoid) all_pairs
                in if color_pairs \<noteq> [] then color_pairs else all_pairs)
             else all_pairs)
      in case cycle_pairs pairs_to_use 0 [] of
           Inl e \<Rightarrow> Inl e
         | Inr outfits' \<Rightarrow> Inr (take 3 outfits'))"

section \<open>The party branch\<close>

definition party_priority_tags :: "string list" where
  "party_priority_tags = [''party'', ''semi-formal'', ''summerwear'', ''beach party'']"

definition fallback_tags :: "string list" where
  "fallback_tags = [''formal'', ''office party'']"

definition party_pool :: "item list \<Rightarrow> item list" where
  "party_pool xs =
     (let party_xs = filter (any_tag_in party_priority_tags) xs
      in if party_xs = [] then filter (any_tag_in fallback_tags) xs else party_xs)"

text \<open>
  \<^verbatim>\<open>party_tops\<close> and \<^verbatim>\<open>party_bottoms\<close> before the colour narrowing: the party pools,
  replaced by the ethnic items of \<^verbatim>\<open>tops_all\<close> and \<^verbatim>\<open>bottoms_all\<close> when one of them is
  empty and the style tags are ethnic.
\<close>

definition party_candidates ::
  "string list \<Rightarrow> item list \<Rightarrow> item list \<Rightarrow> item list \<Rightarrow> item list \<Rightarrow> item list \<times> item list" where
  "party_candidates style_tags tops_all bottoms_all tops bottoms =
     (let party_tops = party_pool tops;
          party_bottoms = party_pool bottoms
      in if (party_tops = [] \<or> party_bottoms = []) \<and> ethnic_style style_tags
         then (filter (any_tag_in [''ethnic'', ''traditional'']) tops_all,
               filter (any_tag_in [''ethnic'', ''traditional'']) bottoms_all)
         else (party_tops, party_bottoms))"

definition prefer_color_matched :: "(rgb \<Rightarrow> rgb \<Rightarrow> real) \<Rightarrow> string list \<Rightarrow> string list \<Rightarrow> item list \<Rightarrow> item list" where
  "prefer_color_matched delta colors avoid xs =
     (let xs_color = filter (\<lambda>t. color_match delta (tags t) colors avoid) xs
      in if xs_color \<noteq> [] then xs_color else xs)"

text \<open>The female one-piece path (lines 396 to 414), which returns at once.\<close>

definition party_one_piece_outfits :: "item list \<Rightarrow> item list \<Rightarrow> item list \<Rightarrow> outfit list" where
  "party_one_piece_outfits one_pieces_color party_tops party_bottoms =
     (let outfits' = map (\<lambda>op. mk_outfit ''one_piece'' [op]) (take 3 one_pieces_color);
          needed = 3 - int (length outfits')
      in if party_tops \<noteq> [] \<and> party_bottoms \<noteq> [] \<and> needed > 0
         then outfits' @ map (\<lambda>i. mk_outfit ''multi_piece''
                                   [party_tops ! 0, party_bottoms ! (i mod length party_bottoms)])
                           [0..<nat needed]
         else outfits')"

definition combo_with_layer :: "bool \<Rightarrow> item list \<Rightarrow> item \<Rightarrow> item \<Rightarrow> item list rand" where
  "combo_with_layer layer_needed layers top' b =
     (if layer_needed \<and> layers \<noteq> [] then rbind (choice layers) (\<lambda>lyr. rret [top', b, lyr])
      else rret [top', b])"

definition party_bottoms_loop ::
  "bool \<Rightarrow> item list \<Rightarrow> item \<Rightarrow> item list \<Rightarrow> (ctl \<times> outfit list \<times> string list) rand" where
  "party_bottoms_loop layer_needed layers top' party_bottoms =
     for_each party_bottoms
       (\<lambda>b (outfits', used_bottoms').
          if name b \<notin> set used_bottoms' then
            rbind (combo_with_layer layer_needed layers top' b)
              (\<lambda>combo. let outfits' = outfits' @ [mk_outfit ''multi_piece'' combo]
                        in rret (if length outfits' = 3 then Break else Next,
                                 (outfits', name b # used_bottoms')))
          else rret (Next, (outfits', used_bottoms')))
       ([], [])"

function party_fill :: "bool \<Rightarrow> item list \<Rightarrow> item \<Rightarrow> item list \<Rightarrow> outfit list \<Rightarrow> outfit list rand" where
  "party_fill layer_needed layers top' party_bottoms outfits' =
     (if length outfits' < 3 then
        rbind (choice party_bottoms)
          (\<lambda>b. rbind (combo_with_layer layer_needed layers top' b)
             (\<lambda>combo. party_fill layer_needed layers top' party_bottoms
                         (outfits' @ [mk_outfit ''multi_piece'' combo])))
      else rret outfits')"
  by pat_completeness auto
termination
  by (relation "measure (\<lambda>(layer_needed, layers, top', party_bottoms, outfits'). 3 - length outfits')") auto

declare party_fill.simps [simp del]

fun zip_fill :: "(item \<times> item) list \<Rightarrow> outfit list \<Rightarrow> outfit list" where
  "zip_fill [] outfits' = outfits'"
| "zip_fill ((t, b) # rest) outfits' =
     (let outfits' = outfits' @ [mk_outfit ''multi_piece'' [t, b]]
      in if length outfits' = 3 then outfits' else zip_fill rest outfits')"

text \<open>The party path with requested colours (lines 416 to 459), which always returns.\<close>

definition party_color_outfits ::
  "string list \<Rightarrow> bool \<Rightarrow> item list \<Rightarrow> item list \<Rightarrow> item list \<Rightarrow> item list \<Rightarrow> item list \<Rightarrow> outfit list rand" where
  "party_color_outfits style_tags layer_needed layers tops_all bottoms_all party_tops party_bottoms =
     rbind
       (if party_tops \<noteq> [] \<and> party_bottoms \<noteq> [] then
          rbind (party_bottoms_loop layer_needed layers (party_tops ! 0) party_bottoms)
            (\<lambda>(c, outfits', used_bottoms').
               party_fill layer_needed layers (party_tops ! 0) party_bottoms outfits')
        else rret [])
       (\<lambda>outfits'.
          let outfits' =
                (if outfits' = [] \<and> ethnic_style style_tags
                 then zip_fill (zip (filter (any_tag_in [''ethnic'', ''traditional'']) tops_all)
                                    (filter (any_tag_in [''ethnic'', ''traditional'']) bottoms_all))
                        outfits'
                 else outfits')
          in if outfits' = [] then rret (replicate 3 none_outfit) else rret outfits')"

section \<open>The default path: \<^verbatim>\<open>make_top_bottom_outfits\<close>\<close>

text \<open>
  The variables of \<^verbatim>\<open>recommend_outfits\<close> that its local function
  \<^verbatim>\<open>make_top_bottom_outfits\<close> and the nested \<^verbatim>\<open>maybe_add_layer\<close> read.
\<close>

record closure =
  cl_colors :: "string list"
  cl_style_tags :: "string list"
  cl_layer_needed :: bool
  cl_tops_color :: "item list"
  cl_bottoms_color :: "item list"
  cl_layers_color :: "item list"

definition maybe_add_layer :: "closure \<Rightarrow> item list \<Rightarrow> item list \<Rightarrow> item list rand" where
  "maybe_add_layer env layer_list combo =
     (if cl_layer_needed env then
        (let lyr_choices = (if cl_layers_color env \<noteq> [] then cl_layers_color env else layer_list);
             avail_layers = filter (\<lambda>l. name l \<notin> set (map name combo)) lyr_choices
         in if avail_layers \<noteq> [] then
              (let filtered_layers = filter (any_tag_in (cl_style_tags env)) avail_layers;
                   selected = (if filtered_layers \<noteq> [] then filtered_layers else avail_layers)
               in rbind (choice selected) (\<lambda>lyr. rret (combo @ [lyr])))
            else rret combo)
      else rret combo)"

text \<open>
  The local variables of \<^verbatim>\<open>make_top_bottom_outfits\<close>. The sets of names are lists,
  tested for membership only.
\<close>

record tb_state =
  combos :: "outfit list"
  used_tops :: "string list"
  used_bottoms :: "string list"
  used_pairs :: "(string \<times> string) list"
  bottom_used :: "string list"

text \<open>\<^verbatim>\<open>combo = [t, b]; maybe_add_layer(combo); combos.append(...)\<close>.\<close>

definition emit :: "closure \<Rightarrow> item list \<Rightarrow> item \<Rightarrow> item \<Rightarrow> tb_state \<Rightarrow> tb_state rand" where
  "emit env layer_list t b st =
     rbind (maybe_add_layer env layer_list [t, b])
       (\<lambda>combo. rret (st\<lparr>combos := combos st @ [mk_outfit ''multi_piece'' combo]\<rparr>))"

text \<open>\<^verbatim>\<open>if len(combos) >= n: return combos\<close>.\<close>

definition return_if_full :: "int \<Rightarrow> tb_state \<Rightarrow> (ctl \<times> tb_state) rand" where
  "return_if_full n st = rret (if int (length (combos st)) \<ge> n then Return else Next, st)"

definition either_matches :: "(rgb \<Rightarrow> rgb \<Rightarrow> real) \<Rightarrow> closure \<Rightarrow> item \<Rightarrow> item \<Rightarrow> bool" where
  "either_matches delta env t b \<longleftrightarrow>
     color_match delta (tags t) (cl_colors env) [] \<or> color_match delta (tags b) (cl_colors env) []"

text \<open>Lines 566 to 579: every colour-matched top against every bottom.\<close>

definition color_tops_loop ::
  "(rgb \<Rightarrow> rgb \<Rightarrow> real) \<Rightarrow> closure \<Rightarrow> item list \<Rightarrow> item list \<Rightarrow> int \<Rightarrow> tb_state \<Rightarrow> (ctl \<times> tb_state) rand" where
  "color_tops_loop delta env bottom_list layer_list n =
     for_each (cl_tops_color env) (\<lambda>t.
       for_each bottom_list (\<lambda>b st.
         if name b \<in> set (used_bottoms st) \<or> (name t, name b) \<in> set (used_pairs st) then rret (Next, st)
         else if \<not> either_matches delta env t b then rret (Next, st)
         else rbind (emit env layer_list t b
                       (st\<lparr>used_bottoms := name b # used_bottoms st,
                           used_pairs := (name t, name b) # used_pairs st\<rparr>))
                (return_if_full n)))"

text \<open>Lines 581 to 596: every colour-matched bottom that is still unused against every top.\<close>

definition color_bottoms_loop ::
  "(rgb \<Rightarrow> rgb \<Rightarrow> real) \<Rightarrow> closure \<Rightarrow> item list \<Rightarrow> item list \<Rightarrow> int \<Rightarrow> tb_state \<Rightarrow> (ctl \<times> tb_state) rand" where
  "color_bottoms_loop delta env top_list layer_list n =
     for_each (cl_bottoms_color env) (\<lambda>b st.
       if name b \<in> set (used_bottoms st) then rret (Next, st)
       else for_each top_list (\<lambda>t st.
              if (name t, name b) \<in> set (used_pairs st) then rret (Next, st)
              else if \<not> either_matches delta env t b then rret (Next, st)
              else rbind (emit env layer_list t b
                            (st\<lparr>used_bottoms := name b # used_bottoms st,
                                used_pairs := (name t, name b) # used_pairs st\<rparr>))
                     (return_if_full n)) st)"

text \<open>Lines 598 to 625: colours requested and exactly one colour-matched top.\<close>

definition single_top_outfits ::
  "(rgb \<Rightarrow> rgb \<Rightarrow> real) \<Rightarrow> closure \<Rightarrow> item list \<Rightarrow> item list \<Rightarrow> item list \<Rightarrow> int \<Rightarrow> tb_state \<Rightarrow> outfit list rand" where
  "single_top_outfits delta env top_list bottom_list layer_list n st =
     (let top' = cl_tops_color env ! 0
      in rbind
           (for_each (cl_bottoms_color env @ bottom_list) (\<lambda>b st.
              if name b \<in> set (bottom_used st) then rret (Next, st)
              else if (name top', name b) \<in> set (used_pairs st) then rret (Next, st)
              else rbind (emit env layer_list top' b
                            (st\<lparr>used_pairs := (name top', name b) # used_pairs st,
                                bottom_used := name b # bottom_used st\<rparr>))
                     (\<lambda>st. rret (if int (length (combos st)) \<ge> n - 1 then Break else Next, st)))
              (st\<lparr>bottom_used := []\<rparr>))
           (\<lambda>(c, st).
              rbind
                (for_each top_list (\<lambda>t.
                   for_each bottom_list (\<lambda>b st.
                     if (name t, name b) \<in> set (used_pairs st) \<or> name t = name top' then rret (Next, st)
                     else if color_match delta (tags t) (cl_colors env) [] then rret (Next, st)
                     else rbind (emit env layer_list t b st) (\<lambda>st. rret (Return, st)))) st)
                (\<lambda>(c, st). rret (slice_to n (combos st)))))"

text \<open>Lines 627 to 653: no colours requested.\<close>

definition no_color_outfits ::
  "closure \<Rightarrow> item list \<Rightarrow> item list \<Rightarrow> item list \<Rightarrow> int \<Rightarrow> tb_state \<Rightarrow> outfit list rand" where
  "no_color_outfits env top_list bottom_list layer_list n st =
     rbind
       (for_each top_list (\<lambda>t.
          for_each bottom_list (\<lambda>b st.
            if name t \<in> set (used_tops st) \<or> name b \<in> set (used_bottoms st)
               \<or> (name t, name b) \<in> set (used_pairs st) then rret (Next, st)
            else rbind (emit env layer_list t b
                          (st\<lparr>used_tops := name t # used_tops st,
                              used_bottoms := name b # used_bottoms st,
                              used_pairs := (name t, name b) # used_pairs st\<rparr>))
                   (return_if_full n)))
          (st\<lparr>used_tops := [], used_bottoms := []\<rparr>))
       (\<lambda>(c, st).
          if c = Return then rret (combos st)
          else rbind
                 (for_each top_list (\<lambda>t.
                    for_each bottom_list (\<lambda>b st.
                      if (name t, name b) \<in> set (used_pairs st) then rret (Next, st)
                      else rbind (emit env layer_list t b st) (return_if_full n))) st)
                 (\<lambda>(c, st). rret (combos st)))"

text \<open>Lines 655 to 669: the last tier, which skips pairs that match a requested colour.\<close>

definition avoid_color_outfits ::
  "(rgb \<Rightarrow> rgb \<Rightarrow> real) \<Rightarrow> closure \<Rightarrow> item list \<Rightarrow> item list \<Rightarrow> item list \<Rightarrow> int \<Rightarrow> tb_state \<Rightarrow> outfit list rand" where
  "avoid_color_outfits delta env top_list bottom_list layer_list n st =
     rbind
       (for_each top_list (\<lambda>t.
          for_each bottom_list (\<lambda>b st.
            if name b \<in> set (used_bottoms st) \<or> (name t, name b) \<in> set (used_pairs st) then rret (Next, st)
            else if cl_colors env \<noteq> [] \<and> either_matches delta env t b then rret (Next, st)
            else rbind (emit env layer_list t b
                          (st\<lparr>used_bottoms := name b # used_bottoms st,
                              used_pairs := (name t, name b) # used_pairs st\<rparr>))
                   (return_if_full n))) st)
       (\<lambda>(c, st). rret (combos st))"

definition make_top_bottom_outfits ::
  "(rgb \<Rightarrow> rgb \<Rightarrow> real) \<Rightarrow> closure \<Rightarrow> item list \<Rightarrow> item list \<Rightarrow> item list \<Rightarrow> int \<Rightarrow> bool \<Rightarrow> outfit list rand" where
  "make_top_bottom_outfits delta env top_list bottom_list layer_list n prefer_color =
     (let st0 = \<lparr>combos = [], used_tops = [], used_bottoms = [], used_pairs = [], bottom_used = []\<rparr>
      in rbind
           (if prefer_color \<and> (cl_tops_color env \<noteq> [] \<or> cl_bottoms_color env \<noteq> []) then
              rbind (color_tops_loop delta env bottom_list layer_list n st0)
                (\<lambda>(c, st). if c = Return then rret (Return, st)
                            else color_bottoms_loop delta env top_list layer_list n st)
            else rret (Next, st0))
           (\<lambda>(c, st).
              if c = Return then rret (combos st)
              else if cl_colors env \<noteq> [] \<and> length (cl_tops_color env) = 1
              then single_top_outfits delta env top_list bottom_list layer_list n st
              else if cl_colors env = []
              then no_color_outfits env top_list bottom_list layer_list n st
              else avoid_color_outfits delta env top_list bottom_list layer_list n st))"

section \<open>The default path: the blocks around \<^verbatim>\<open>make_top_bottom_outfits\<close>\<close>

text \<open>Lines 479 to 502: one one-piece outfit for a female profile, with a layer if needed.\<close>

definition one_piece_block ::
  "closure \<Rightarrow> string \<Rightarrow> string list \<Rightarrow> item list \<Rightarrow> item list \<Rightarrow> item list \<Rightarrow> (outfit list \<times> string list) rand" where
  "one_piece_block env gender' occasions one_pieces one_pieces_color layers =
     (if gender' = ''female'' \<and> one_pieces \<noteq> [] \<and> \<not> strictly_formal occasions
         \<and> \<not> (set [''ritual'', ''ceremony'', ''ethnic'', ''traditional''] \<inter> set (cl_style_tags env) \<noteq> {})
         \<and> \<not> (set [''casual'', ''comfortable'', ''picnic'', ''shopping''] \<inter> set (cl_style_tags env) \<noteq> {})
      then
        (let used = [];
             op_choices = (if one_pieces_color \<noteq> [] then one_pieces_color else one_pieces)
         in rbind (choice (filter (\<lambda>p. name p \<notin> set used) op_choices))
              (\<lambda>op. let outfit' = [op]; used = name op # used
                     in rbind
                          (if cl_layer_needed env \<and> layers \<noteq> [] then
                             (let lyr_choices = (if cl_layers_color env \<noteq> [] then cl_layers_color env else layers);
                                  avail_layers = filter (\<lambda>l. name l \<notin> set used) lyr_choices
                              in if avail_layers \<noteq> []
                                 then rbind (choice avail_layers)
                                        (\<lambda>lyr. rret (outfit' @ [lyr], name lyr # used))
                                 else rret (outfit', used))
                           else rret (outfit', used))
                          (\<lambda>(outfit', used). rret ([mk_outfit ''one_piece'' outfit'], used))))
      else rret ([], []))"

text \<open>
  Lines 504 to 524: up to two top, bottom and layer outfits from the shuffled pairs; an
  outfit whose set of names equals that of an outfit already there is skipped.
\<close>

definition same_names :: "item list \<Rightarrow> outfit \<Rightarrow> bool" where
  "same_names combo o' \<longleftrightarrow> set (map name combo) = set (map name (oitems o'))"

definition layered_block ::
  "closure \<Rightarrow> item list \<Rightarrow> item list \<Rightarrow> item list \<Rightarrow> outfit list \<Rightarrow> outfit list rand" where
  "layered_block env tops bottoms layers outfits' =
     (if cl_layer_needed env \<and> tops \<noteq> [] \<and> bottoms \<noteq> [] \<and> layers \<noteq> [] then
        rbind (shuffle (List.product tops bottoms))
          (\<lambda>tb_pairs.
             rbind
               (for_each tb_pairs
                  (\<lambda>(t, b) (outfits', added).
                     let combo = [t, b];
                         lyr_choices = (if cl_layers_color env \<noteq> [] then cl_layers_color env else layers);
                         avail_layers = filter (\<lambda>l. name l \<notin> set (map name combo)) lyr_choices
                     in rbind
                          (if avail_layers \<noteq> [] then rbind (choice avail_layers) (\<lambda>lyr. rret (combo @ [lyr]))
                           else rret combo)
                          (\<lambda>combo.
                             let (outfits', added) =
                                   (if \<not> list_ex (same_names combo) outfits'
                                    then (outfits' @ [mk_outfit ''multi_piece'' combo], added + 1)
                                    else (outfits', added))
                             in rret (if added \<ge> (2::nat) then Break else Next, (outfits', added))))
                  (outfits', 0))
               (\<lambda>(c, outfits', added). rret outfits'))
      else rret outfits')"

text \<open>Lines 526 to 544: the swimwear loop, the same in both branches.\<close>

fun add_swimwear :: "item list \<Rightarrow> string list \<Rightarrow> outfit list \<Rightarrow> outfit list" where
  "add_swimwear [] used outfits' = outfits'"
| "add_swimwear (sw # rest) used outfits' =
     (if name sw \<notin> set used then
        (let outfits' = outfits' @ [swim_outfit sw]; used = name sw # used
         in if length outfits' \<ge> 3 then outfits' else add_swimwear rest used outfits')
      else add_swimwear rest used outfits')"

text \<open>
  Lines 683 to 705. \<^verbatim>\<open>used_pairs\<close> starts as a set of generator objects, one for each
  outfit; a tuple of names never equals a generator, so as far as the test
  \<^verbatim>\<open>pair not in used_pairs\<close> goes the set starts empty.
\<close>

definition reuse_pairs ::
  "bool \<Rightarrow> item list \<Rightarrow> item list \<Rightarrow> item list \<Rightarrow> outfit list \<Rightarrow> outfit list rand" where
  "reuse_pairs layer_needed tops bottoms layers outfits' =
     (if length outfits' < 3 then
        rbind
          (for_each tops (\<lambda>t st.
             rbind
               (for_each bottoms (\<lambda>b (extra_outfits, used_pairs').
                  if (name t, name b) \<notin> set used_pairs' then
                    rbind (combo_with_layer layer_needed layers t b)
                      (\<lambda>combo. let extra_outfits = extra_outfits @ [mk_outfit ''multi_piece'' combo];
                                    used_pairs' = (name t, name b) # used_pairs'
                                in rret (if length outfits' + length extra_outfits \<ge> 3 then Break else Next,
                                         (extra_outfits, used_pairs')))
                  else rret (Next, (extra_outfits, used_pairs'))) st)
               (\<lambda>(c, extra_outfits, used_pairs').
                  rret (if length outfits' + length extra_outfits \<ge> 3 then Break else Next,
                        (extra_outfits, used_pairs'))))
             ([], []))
          (\<lambda>(c, extra_outfits, used_pairs').
             rret (outfits' @ slice_to (3 - int (length outfits')) extra_outfits))
      else rret outfits')"

text \<open>Lines 707 to 714: the final fallback; \<^verbatim>\<open>random.choice\<close> raises on an empty list.\<close>

function final_fill :: "bool \<Rightarrow> item list \<Rightarrow> item list \<Rightarrow> item list \<Rightarrow> outfit list \<Rightarrow> outfit list rand" where
  "final_fill layer_needed tops bottoms layers outfits' =
     (if length outfits' < 3 then
        rbind (choice tops)
          (\<lambda>t. rbind (choice bottoms)
             (\<lambda>b. rbind (combo_with_layer layer_needed layers t b)
                (\<lambda>combo. final_fill layer_needed tops bottoms layers
                            (outfits' @ [mk_outfit ''multi_piece'' combo]))))
      else rret outfits')"
  by pat_completeness auto
termination
  by (relation "measure (\<lambda>(layer_needed, tops, bottoms, layers, outfits'). 3 - length outfits')") auto

declare final_fill.simps [simp del]

text \<open>
  Lines 716 to 763, the second block for active occasions. Its test is the test of the
  early active branch, which returns or raises on every path, so this block is never
  reached; it is modelled as written.
\<close>

definition active_tail ::
  "(rgb \<Rightarrow> rgb \<Rightarrow> real) \<Rightarrow> string list \<Rightarrow> string list \<Rightarrow> string list \<Rightarrow> item list \<Rightarrow> item list \<Rightarrow> outfit list \<Rightarrow> outfit list rand" where
  "active_tail delta colors avoid style_tags tops bottoms outfits' =
     (let relevant_tops = relevant style_tags tops;
          relevant_bottoms = relevant style_tags bottoms;
          cm = (\<lambda>i. color_match delta (tags i) colors avoid);
          tops_color = filter cm relevant_tops;
          bottoms_color = filter cm relevant_bottoms;
          top_priority = tops_color @ filter (\<lambda>t. name t \<notin> set (map name tops_color)) relevant_tops;
          bottom_priority = bottoms_color @ filter (\<lambda>b. name b \<notin> set (map name bottoms_color)) relevant_bottoms
      in rbind
           (for_each top_priority (\<lambda>t st.
              rbind
                (for_each bottom_priority (\<lambda>b (outfits', used_top, used_bottom).
                   if (cm t \<or> cm b) \<and> name t \<notin> set used_top \<and> name b \<notin> set used_bottom
                   then rret (Break, (outfits' @ [mk_outfit ''multi_piece'' [t, b]],
                                      name t # used_top, name b # used_bottom))
                   else rret (Next, (outfits', used_top, used_bottom))) st)
                (\<lambda>(c, outfits', used_top, used_bottom).
                   rret (if length outfits' \<ge> 1 then Break else Next, (outfits', used_top, used_bottom))))
              (outfits', [], []))
           (\<lambda>(c, st).
              rbind
                (for_each relevant_tops (\<lambda>t st.
                   rbind
                     (for_each relevant_bottoms (\<lambda>b (outfits', used_top, used_bottom).
                        if name t \<notin> set used_top \<and> name b \<notin> set used_bottom
                        then (let outfits' = outfits' @ [mk_outfit ''multi_piece'' [t, b]]
                              in rret (if length outfits' \<ge> 3 then Break else Next,
                                       (outfits', name t # used_top, name b # used_bottom)))
                        else rret (Next, (outfits', used_top, used_bottom))) st)
                     (\<lambda>(c, outfits', used_top, used_bottom).
                        rret (if length outfits' \<ge> 3 then Break else Next, (outfits', used_top, used_bottom))))
                   st)
                (\<lambda>(c, outfits', used_top, used_bottom). rret (pad_none outfits'))))"

definition default_outfits ::
  "(rgb \<Rightarrow> rgb \<Rightarrow> real) \<Rightarrow> string list \<Rightarrow> string list \<Rightarrow> string list \<Rightarrow> string list \<Rightarrow> bool \<Rightarrow> string
     \<Rightarrow> item list \<Rightarrow> item list \<Rightarrow> item list \<Rightarrow> item list \<Rightarrow> item list \<Rightarrow> item list \<Rightarrow> outfit list rand" where
  "default_outfits delta occasions style_tags colors avoid layer_needed gender' items filtered
       one_pieces tops bottoms layers =
     (let one_pieces_color = color_matched delta colors avoid one_pieces;
          env = \<lparr>cl_colors = colors, cl_style_tags = style_tags, cl_layer_needed = layer_needed,
                 cl_tops_color = color_matched delta colors avoid tops,
                 cl_bottoms_color = color_matched delta colors avoid bottoms,
                 cl_layers_color = color_matched delta colors avoid layers\<rparr>
      in rbind (one_piece_block env gender' occasions one_pieces one_pieces_color layers)
           (\<lambda>(outfits', used).
      rbind (layered_block env tops bottoms layers outfits')
           (\<lambda>outfits'.
      let swimwear_items =
            (if is_swimming occasions style_tags then filter_category items ''swimwear'' (Some gender')
             else filter (\<lambda>i. category i = ''swimwear'') filtered);
          outfits' = add_swimwear swimwear_items used outfits';
          needed = 3 - int (length outfits')
      in rbind (make_top_bottom_outfits delta env tops bottoms layers needed True)
           (\<lambda>combos'.
      let outfits' = outfits' @ combos';
          needed = 3 - int (length outfits')
      in rbind
           (if needed > 0
            then rbind (make_top_bottom_outfits delta env tops bottoms layers needed False)
                   (\<lambda>combos'. rret (outfits' @ combos'))
            else rret outfits')
           (\<lambda>outfits'.
      rbind (reuse_pairs layer_needed tops bottoms layers outfits')
           (\<lambda>outfits'.
      rbind (final_fill layer_needed tops bottoms layers outfits')
           (\<lambda>outfits'.
      if is_active occasions
      then rbind (active_tail delta colors avoid style_tags tops bottoms outfits')
             (\<lambda>outfits'. rret (take 3 outfits'))
      else rret (take 3 outfits'))))))))"

section \<open>\<^verbatim>\<open>recommend_outfits\<close>\<close>

text \<open>
  The outfits of a call, from the requirements extracted from the prompt and the items
  that passed the profile filter: the branches of \<^verbatim>\<open>recommend_outfits\<close> in the order
  of the source.
\<close>

definition compose_outfits ::
  "(rgb \<Rightarrow> rgb \<Rightarrow> real) \<Rightarrow> string list \<Rightarrow> string list \<Rightarrow> string list \<Rightarrow> bool \<Rightarrow> string list
     \<Rightarrow> item list \<Rightarrow> string \<Rightarrow> outfit list rand" where
  "compose_outfits delta colors occasions avoid layer_needed style_tags items gender' =
     (if is_swimming occasions style_tags
      then rret (swimming_outfits delta colors avoid (filter_category items ''swimwear'' (Some gender')))
      else
        (let one_pieces =
               (if gender' = ''female''
                then filter_category items ''one-piece'' (Some ''female'')
                       @ filter_category items ''one_piece'' (Some ''female'')
                else []);
             tops_all = filter_category items ''topwear'' (Some gender');
             bottoms_all = filter_category items ''bottomwear'' (Some gender');
             tops = select_by_style delta style_tags avoid tops_all;
             bottoms = select_by_style delta style_tags avoid bottoms_all;
             layers = filter_category items ''layer'' (Some gender');
             filtered = filter (any_tag_in style_tags) items
         in if is_active occasions then
              (case active_outfits delta colors avoid style_tags tops bottoms of
                 Inl e \<Rightarrow> rraise e
               | Inr outfits' \<Rightarrow> rret outfits')
            else
              (let formal_only = (strictly_formal occasions \<and> \<not> ethnic_style style_tags);
                   tops = (if formal_only then filter (\<lambda>t. ''formal'' \<in> set (tags t)) tops else tops);
                   bottoms = (if formal_only then filter (\<lambda>b. ''formal'' \<in> set (tags b)) bottoms else bottoms)
               in if is_party occasions then
                    (case party_candidates style_tags tops_all bottoms_all tops bottoms of
                       (party_tops, party_bottoms) \<Rightarrow>
                         if colors \<noteq> [] then
                           (let party_tops = prefer_color_matched delta colors avoid party_tops;
                                party_bottoms = prefer_color_matched delta colors avoid party_bottoms;
                                one_pieces_color =
                                  filter (\<lambda>op. color_match delta (tags op) colors avoid)
                                    (filter (any_tag_in party_priority_tags) one_pieces)
                            in if gender' = ''female'' \<and> one_pieces_color \<noteq> []
                               then rret (party_one_piece_outfits one_pieces_color party_tops party_bottoms)
                               else party_color_outfits style_tags layer_needed layers tops_all bottoms_all
                                      party_tops party_bottoms)
                         else default_outfits delta occasions style_tags colors avoid layer_needed gender'
                                items filtered one_pieces party_tops party_bottoms layers)
                  else default_outfits delta occasions style_tags colors avoid layer_needed gender'
                         items filtered one_pieces tops bottoms layers)))"

text \<open>
  \<^verbatim>\<open>recommend_outfits(prompt, username)\<close>. Beside its two arguments the model takes what
  the method reads from its surroundings: the colour metric \<open>delta\<close>, the user store, the
  wardrobe, the wall clock, and (as the last argument, through \<open>rand\<close>) the random source.
\<close>

definition recommend_outfits ::
  "(rgb \<Rightarrow> rgb \<Rightarrow> real) \<Rightarrow> user_db \<Rightarrow> item list \<Rightarrow> clock \<Rightarrow> string \<Rightarrow> string \<Rightarrow> result rand" where
  "recommend_outfits delta USER_DB wardrobe_db now prompt username =
     (if username \<notin> dom USER_DB then rraise (ValueError ''User not authenticated'')
      else
        (case get_user_preferences USER_DB username of
           Inl e \<Rightarrow> rraise e
         | Inr profile \<Rightarrow>
             (case extract_prompt_requirements prompt of
                (colors, occasions, avoid, layer_needed) \<Rightarrow>
                  (let context' = get_context now;
                       layer_needed = (layer_needed \<or> (str_in ''layer'' prompt \<or> str_in ''cold'' prompt
                                         \<or> season context' = ''winter''));
                       style_tags = style_tags_of occasions;
                       items = filter_by_profile wardrobe_db profile;
                       gender' = pref_gender profile
                   in rbind (compose_outfits delta colors occasions avoid layer_needed style_tags items gender')
                        (\<lambda>outfits'. rret (mk_result username occasions context' outfits'))))))"

text \<open>
  The occasions component of the result, and the condition "no occasion key, no synonym
  and no forced ethnic term occurs in the (lower-cased, swim-normalised) prompt".
\<close>

definition no_occasion_match :: "string \<Rightarrow> bool" where
  "no_occasion_match prompt \<longleftrightarrow>
     (\<forall>k \<in> set (map fst OCCASION_STYLES). \<not> str_in k prompt)
     \<and> (\<forall>(k, v) \<in> set OCCASION_SYNONYMS. \<forall>syn \<in> set v. \<not> str_in syn prompt)
     \<and> (\<forall>pat \<in> set office_ethnic_patterns. \<not> str_in pat prompt)
     \<and> (\<forall>word \<in> set [''ethnic'', ''traditional'', ''cultural'']. \<not> str_in word prompt)"

definition occasions_of :: "string \<Rightarrow> string list" where
  "occasions_of prompt = fst (snd (extract_prompt_requirements prompt))"

section \<open>Specification predicates\<close>

text \<open>
  \<open>post m Q\<close>: whenever the computation \<open>m\<close> returns, its value satisfies \<open>Q\<close>, and
  whenever it raises, the exception is \<^verbatim>\<open>IndexError\<close> or \<^verbatim>\<open>ZeroDivisionError\<close>.
\<close>

definition post :: "'a rand \<Rightarrow> ('a \<Rightarrow> bool) \<Rightarrow> bool" where
  "post m Q \<longleftrightarrow>
     (\<forall>r. case m r of Inl e \<Rightarrow> e = IndexError \<or> e = ZeroDivisionError | Inr (x, r') \<Rightarrow> Q x)"

text \<open>
  \<open>pool items cats xs\<close>: the candidates \<open>xs\<close> are taken from \<open>items\<close> and have one of the
  categories \<open>cats\<close>. An outfit is well formed over \<open>items\<close> when its items are taken from
  \<open>items\<close>, have pairwise different categories and are at most three, and when it has no
  item exactly if its type is \<^verbatim>\<open>none\<close>.
\<close>

definition pool :: "item list \<Rightarrow> string list \<Rightarrow> item list \<Rightarrow> bool" where
  "pool items cats xs \<longleftrightarrow> (\<forall>x \<in> set xs. x \<in> set items \<and> category x \<in> set cats)"

definition well_formed :: "item list \<Rightarrow> outfit \<Rightarrow> bool" where
  "well_formed items o' \<longleftrightarrow>
     set (oitems o') \<subseteq> set items \<and> distinct (map category (oitems o'))
     \<and> length (oitems o') \<le> 3 \<and> (otype o' = ''none'' \<longleftrightarrow> oitems o' = [])"

definition all_wf :: "item list \<Rightarrow> outfit list \<Rightarrow> bool" where
  "all_wf items os \<longleftrightarrow> (\<forall>o' \<in> set os. well_formed items o')"

definition pools :: "item list \<Rightarrow> item list \<Rightarrow> item list \<Rightarrow> item list \<Rightarrow> closure \<Rightarrow> bool" where
  "pools items tops bottoms layers env \<longleftrightarrow>
     pool items [''topwear''] tops \<and> pool items [''bottomwear''] bottoms \<and> pool items [''layer''] layers
     \<and> pool items [''topwear''] (cl_tops_color env) \<and> pool items [''bottomwear''] (cl_bottoms_color env)
     \<and> pool items [''layer''] (cl_layers_color env)"

definition good_combo :: "item list \<Rightarrow> item list \<Rightarrow> bool" where
  "good_combo items combo \<longleftrightarrow>
     set combo \<subseteq> set items \<and> distinct (map category combo) \<and> combo \<noteq> [] \<and> length combo \<le> 3"

section \<open>Properties of the user store\<close>

text \<open>
  C10. \<^verbatim>\<open>set_user_preferences\<close> with a user name that is not a key of the store returns
  normally (the model has no error branch, as the source has no \<^verbatim>\<open>raise\<close>) and leaves the
  store as it was: every user's password hash and preferences are the same afterwards.
\<close>

theorem set_user_preferences_unknown_noop:
  "username \<notin> dom USER_DB \<Longrightarrow> set_user_preferences USER_DB username prefs = USER_DB"
  by (auto simp: set_user_preferences_def split: option.splits)

theorem set_user_preferences_unknown_noop_witness:
  "''bob'' \<notin> dom [''amy'' \<mapsto> \<lparr>password_hash = ''h'', preferences = default_preferences\<rparr>]
   \<and> set_user_preferences [''amy'' \<mapsto> \<lparr>password_hash = ''h'', preferences = default_preferences\<rparr>]
        ''bob'' \<lparr>pref_age_group = ''teen'', pref_gender = ''male''\<rparr>
      = [''amy'' \<mapsto> \<lparr>password_hash = ''h'', preferences = default_preferences\<rparr>]"
proof -
  have h: "''bob'' \<notin> dom [''amy'' \<mapsto> \<lparr>password_hash = ''h'', preferences = default_preferences\<rparr>]"
    by simp
  show ?thesis
    using h set_user_preferences_unknown_noop [OF h, of "\<lparr>pref_age_group = ''teen'', pref_gender = ''male''\<rparr>"]
    by simp
qed

section \<open>Properties of the prompt interpreter\<close>

lemma starts_with_str_in: "starts_with k s \<Longrightarrow> str_in k s"
  by (cases s) (auto elim: starts_with.elims)

lemma first_match_None: "(\<And>k. k \<in> set ks \<Longrightarrow> f k = None) \<Longrightarrow> first_match f ks = None"
  by (induction ks) auto

lemma whole_word_key_no_key:
  assumes "\<forall>k \<in> set ks. \<not> str_in k s"
  shows "whole_word_key ks prev s = None"
proof -
  have "whole_key prev s k = None" if "k \<in> set ks" for k
    using that assms starts_with_str_in by (auto simp: whole_key_def)
  then show ?thesis
    by (simp add: whole_word_key_def first_match_None)
qed

lemma findall_no_key:
  "\<forall>k \<in> set ks. \<not> str_in k s \<Longrightarrow> findall (whole_word_key ks) prev s = []"
proof (induction s arbitrary: prev)
  case Nil
  then show ?case by simp
next
  case (Cons c cs)
  have "whole_word_key ks prev (c # cs) = None"
    using Cons.prems by (rule whole_word_key_no_key)
  moreover have "\<forall>k \<in> set ks. \<not> str_in k cs"
    using Cons.prems by auto
  ultimately show ?case
    using Cons.IH by simp
qed

lemma fold_unchanged: "(\<And>x a. x \<in> set xs \<Longrightarrow> f x a = a) \<Longrightarrow> fold f xs a = a"
  by (induction xs arbitrary: a) auto

lemma expand_occasions_no_match:
  assumes "no_occasion_match p"
  shows "expand_occasions p =
           (if list_ex (\<lambda>word. str_in word p) outing_words then [''casual''] else [])"
proof -
  have keys: "\<forall>k \<in> set (map fst OCCASION_STYLES). \<not> str_in k p"
    and syns: "\<forall>(k, v) \<in> set OCCASION_SYNONYMS. \<forall>syn \<in> set v. \<not> str_in syn p"
    and pats: "\<not> list_ex (\<lambda>pat. str_in pat p) office_ethnic_patterns"
    and gen: "\<not> list_ex (\<lambda>word. str_in word p) [''ethnic'', ''traditional'', ''cultural'']"
    using assms unfolding no_occasion_match_def list_ex_iff by blast+
  have f0: "findall (whole_word_key (map fst OCCASION_STYLES)) None p = []"
    using keys by (rule findall_no_key)
  have f1: "fold (\<lambda>k occs. if k \<notin> set occs \<and> str_in k p then occs @ [k] else occs)
              (map fst OCCASION_STYLES) [] = []"
    using keys by (intro fold_unchanged) auto
  have f2: "fold (\<lambda>(k, v) e. fold (\<lambda>syn e. if str_in syn p then set_add k e else e) v e)
              OCCASION_SYNONYMS [] = []"
    using syns by (intro fold_unchanged) (auto intro!: fold_unchanged)
  show ?thesis
    unfolding expand_occasions_def Let_def f0 f1
    using pats gen by (simp add: f2 set_add_def)
qed

text \<open>
  C7. The occasion list of \<^verbatim>\<open>extract_prompt_requirements\<close> is never empty. When the
  prompt, lower-cased and swim-normalised as the function does before it looks for
  occasions, contains no occasion key, no synonym and no forced ethnic term, the list is
  \<^verbatim>\<open>["casual"]\<close> if the prompt contains one of outing, walk, park, shopping, picnic, and
  \<^verbatim>\<open>["general"]\<close> otherwise.
\<close>

theorem extract_occasions_fallback:
  "occasions_of prompt \<noteq> []
   \<and> (no_occasion_match (normalize_swim (lower prompt)) \<longrightarrow>
        occasions_of prompt =
          (if \<exists>word \<in> set outing_words. str_in word (normalize_swim (lower prompt))
           then [''casual''] else [''general'']))"
proof -
  have "expand_occasions (normalize_swim (lower prompt)) =
          (if list_ex (\<lambda>word. str_in word (normalize_swim (lower prompt))) outing_words
           then [''casual''] else [])"
    if "no_occasion_match (normalize_swim (lower prompt))"
    using that by (rule expand_occasions_no_match)
  then show ?thesis
    by (auto simp: occasions_of_def extract_prompt_requirements_def Let_def list_ex_iff)
qed

lemma nom_walk: "no_occasion_match (normalize_swim (lower ''a walk''))"
  by (simp add: no_occasion_match_def normalize_swim_def lower_def lower_char_def
        OCCASION_STYLES_def OCCASION_SYNONYMS_def office_ethnic_patterns_def)

theorem extract_occasions_fallback_witness:
  "no_occasion_match (normalize_swim (lower ''a walk'')) \<and> occasions_of ''a walk'' = [''casual'']"
proof -
  have w: "\<exists>word \<in> set outing_words. str_in word (normalize_swim (lower ''a walk''))"
    by (simp add: outing_words_def normalize_swim_def lower_def lower_char_def)
  show ?thesis
    using extract_occasions_fallback [of "''a walk''"] nom_walk w by simp
qed

section \<open>Every outfit of a result is well formed\<close>

lemma post_rret [simp]: "post (rret x) Q \<longleftrightarrow> Q x"
  by (simp add: post_def rret_def)

lemma post_rraise [simp]: "post (rraise e) Q \<longleftrightarrow> e = IndexError \<or> e = ZeroDivisionError"
  by (simp add: post_def rraise_def)

lemma post_rbind: "post m (\<lambda>x. post (f x) Q) \<Longrightarrow> post (rbind m f) Q"
  unfolding post_def rbind_def
proof
  fix r
  assume a: "\<forall>r. case m r of Inl e \<Rightarrow> e = IndexError \<or> e = ZeroDivisionError
                  | Inr (x, r') \<Rightarrow> \<forall>r. case f x r of Inl e \<Rightarrow> e = IndexError \<or> e = ZeroDivisionError
                                                | Inr (y, r') \<Rightarrow> Q y"
  show "case (case m r of Inl e \<Rightarrow> Inl e | Inr (x, r') \<Rightarrow> f x r') of
          Inl e \<Rightarrow> e = IndexError \<or> e = ZeroDivisionError | Inr (y, r') \<Rightarrow> Q y"
  proof (cases "m r")
    case (Inl e)
    then show ?thesis using a [rule_format, of r] by simp
  next
    case (Inr p)
    obtain x r' where p: "p = (x, r')" by (cases p)
    have "\<forall>r. case f x r of Inl e \<Rightarrow> e = IndexError \<or> e = ZeroDivisionError | Inr (y, r') \<Rightarrow> Q y"
      using a [rule_format, of r] Inr p by simp
    then show ?thesis using Inr p by simp
  qed
qed

lemma post_mono: "post m P \<Longrightarrow> (\<And>x. P x \<Longrightarrow> Q x) \<Longrightarrow> post m Q"
  unfolding post_def by (auto split: sum.splits prod.splits)

lemma post_choice: "(\<And>x. x \<in> set xs \<Longrightarrow> Q x) \<Longrightarrow> post (choice xs) Q"
  by (auto simp: post_def choice_def split: prod.splits)

lemma set_shuffle_from: "i < length xs \<Longrightarrow> set (fst (shuffle_from i xs r)) = set xs"
proof (induction i arbitrary: xs r)
  case 0
  then show ?case by simp
next
  case (Suc i)
  obtain k r' where d: "next_draw r = (k, r')" by (cases "next_draw r")
  let ?j = "k mod (Suc i + 1)"
  let ?ys = "xs[Suc i := xs ! ?j, ?j := xs ! Suc i]"
  have "?j < Suc i + 1" by simp
  then have j: "?j < length xs" using Suc.prems by linarith
  have "set ?ys = set xs" using Suc.prems j by (simp add: set_swap)
  moreover have "i < length ?ys" using Suc.prems by simp
  ultimately have "set (fst (shuffle_from i ?ys r')) = set xs"
    using Suc.IH [of ?ys r'] by simp
  then show ?case using d by (simp add: Let_def)
qed

lemma post_shuffle: "(\<And>ys. set ys = set xs \<Longrightarrow> Q ys) \<Longrightarrow> post (shuffle xs) Q"
proof -
  assume q: "\<And>ys. set ys = set xs \<Longrightarrow> Q ys"
  have s: "set (fst (shuffle_from (length xs - 1) xs r)) = set xs" for r
  proof (cases xs)
    case Nil
    then show ?thesis by simp
  next
    case (Cons a list)
    then show ?thesis by (intro set_shuffle_from) simp
  qed
  have "Q (fst (shuffle_from (length xs - 1) xs r))" for r
    using q [OF s] .
  then show ?thesis
    by (simp add: post_def shuffle_def case_prod_unfold)
qed

lemma post_for_each:
  assumes "I st" and "\<And>x s. x \<in> set xs \<Longrightarrow> I s \<Longrightarrow> post (body x s) (\<lambda>cs. I (snd cs))"
  shows "post (for_each xs body st) (\<lambda>cs. I (snd cs))"
  using assms
proof (induction xs arbitrary: st)
  case Nil
  then show ?case by simp
next
  case (Cons x xs)
  have "post (body x st) (\<lambda>cs. I (snd cs))" using Cons.prems by simp
  then show ?case
    apply (simp only: for_each.simps)
    apply (rule post_rbind)
    apply (erule post_mono)
    using Cons by (auto split: ctl.splits)
qed




lemma well_formed_mk: "good_combo items combo \<Longrightarrow> ty \<noteq> ''none'' \<Longrightarrow> well_formed items (mk_outfit ty combo)"
  by (simp add: good_combo_def well_formed_def mk_outfit_def)

lemma well_formed_none: "well_formed items none_outfit"
  by (simp add: well_formed_def none_outfit_def mk_outfit_def)

lemma all_wf_Nil [simp]: "all_wf items []"
  by (simp add: all_wf_def)

lemma all_wf_snoc: "all_wf items os \<Longrightarrow> well_formed items o' \<Longrightarrow> all_wf items (os @ [o'])"
  by (auto simp: all_wf_def)

lemma all_wf_append: "all_wf items os \<Longrightarrow> all_wf items os' \<Longrightarrow> all_wf items (os @ os')"
  by (auto simp: all_wf_def)

lemma all_wf_take: "all_wf items os \<Longrightarrow> all_wf items (take k os)"
  by (auto simp: all_wf_def dest: in_set_takeD)

lemma all_wf_slice_to: "all_wf items os \<Longrightarrow> all_wf items (slice_to n os)"
  by (simp add: slice_to_def all_wf_take)

lemma pool_filter: "pool items cats xs \<Longrightarrow> pool items cats (filter P xs)"
  by (simp add: pool_def)

lemma pool_Nil [simp]: "pool items cats []"
  by (simp add: pool_def)

lemma pool_append: "pool items cats xs \<Longrightarrow> pool items cats ys \<Longrightarrow> pool items cats (xs @ ys)"
  by (auto simp: pool_def)

lemma pool_if: "pool items cats xs \<Longrightarrow> pool items cats ys \<Longrightarrow> pool items cats (if c then xs else ys)"
  by simp

lemma good_top_bottom:
  assumes "pool items [''topwear''] ts" "pool items [''bottomwear''] bs" "t \<in> set ts" "b \<in> set bs"
  shows "good_combo items [t, b]"
  using assms by (auto simp: pool_def good_combo_def)

lemma good_top_bottom_layer:
  assumes "pool items [''topwear''] ts" "pool items [''bottomwear''] bs" "pool items [''layer''] ls"
    "t \<in> set ts" "b \<in> set bs" "l \<in> set ls"
  shows "good_combo items [t, b, l]"
  using assms by (auto simp: pool_def good_combo_def)

lemma post_maybe_add_layer:
  assumes "pool items [''topwear''] ts" "pool items [''bottomwear''] bs"
    "pool items [''layer''] layer_list" "pool items [''layer''] (cl_layers_color env)"
    "t \<in> set ts" "b \<in> set bs"
  shows "post (maybe_add_layer env layer_list [t, b]) (good_combo items)"
proof -
  have tb: "good_combo items [t, b]"
    using assms by (auto intro: good_top_bottom)
  have l: "good_combo items ([t, b] @ [l])"
    if "l \<in> set layer_list \<or> l \<in> set (cl_layers_color env)" for l
    using that assms by (auto intro: good_top_bottom_layer)
  show ?thesis
    unfolding maybe_add_layer_def Let_def
    using tb l by (auto intro!: post_rbind post_choice split: if_splits)
qed

lemma post_emit:
  assumes "pool items [''topwear''] ts" "pool items [''bottomwear''] bs"
    "pool items [''layer''] layer_list" "pool items [''layer''] (cl_layers_color env)"
    "t \<in> set ts" "b \<in> set bs" "all_wf items (combos st)"
    "\<And>st'. all_wf items (combos st') \<Longrightarrow> post (k st') Q"
  shows "post (rbind (emit env layer_list t b st) k) Q"
proof -
  have "post (maybe_add_layer env layer_list [t, b]) (good_combo items)"
    using assms(1-6) by (rule post_maybe_add_layer)
  then have "post (emit env layer_list t b st) (\<lambda>st'. all_wf items (combos st'))"
    unfolding emit_def
    by (intro post_rbind) (auto elim!: post_mono intro!: all_wf_snoc well_formed_mk assms(7))
  then show ?thesis
    by (intro post_rbind) (auto elim!: post_mono intro: assms(8))
qed

lemma post_return_if_full [simp]: "post (return_if_full n st) Q \<longleftrightarrow> Q (if int (length (combos st)) \<ge> n then Return else Next, st)"
  by (simp add: return_if_full_def)

lemma post_color_tops_loop:
  assumes "pools items top_list bottom_list layer_list env" "all_wf items (combos st)"
  shows "post (color_tops_loop delta env bottom_list layer_list n st) (\<lambda>cs. all_wf items (combos (snd cs)))"
  unfolding color_tops_loop_def
  apply (rule post_for_each [where I = "\<lambda>st. all_wf items (combos st)"])
   apply (rule assms)
  apply (rule post_for_each [where I = "\<lambda>st. all_wf items (combos st)"])
   apply assumption
  using assms(1) unfolding pools_def
  apply (auto intro!: post_emit [where items = items and ts = "cl_tops_color env" and bs = bottom_list])
  done




lemma post_seq: "post m P \<Longrightarrow> (\<And>x. P x \<Longrightarrow> post (f x) Q) \<Longrightarrow> post (rbind m f) Q"
  by (rule post_rbind) (erule post_mono)

lemma post_color_bottoms_loop:
  assumes "pools items top_list bottom_list layer_list env" "all_wf items (combos st)"
  shows "post (color_bottoms_loop delta env top_list layer_list n st) (\<lambda>cs. all_wf items (combos (snd cs)))"
  unfolding color_bottoms_loop_def
  apply (rule post_for_each [where I = "\<lambda>st. all_wf items (combos st)"])
   apply (rule assms)
  subgoal for b s
    apply (cases "name b \<in> set (used_bottoms s)")
     apply simp
    apply (simp only: if_False)
    apply (rule post_for_each [where I = "\<lambda>st. all_wf items (combos st)"])
     apply assumption
    using assms(1) unfolding pools_def
    apply (auto intro!: post_emit [where items = items and ts = top_list and bs = "cl_bottoms_color env"])
    done
  done

lemma post_single_top_outfits:
  assumes "pools items top_list bottom_list layer_list env" "all_wf items (combos st)"
    "cl_tops_color env \<noteq> []"
  shows "post (single_top_outfits delta env top_list bottom_list layer_list n st) (all_wf items)"
proof -
  have top: "cl_tops_color env ! 0 \<in> set (cl_tops_color env)"
    using assms(3) by simp
  have bs: "pool items [''bottomwear''] (cl_bottoms_color env @ bottom_list)"
    using assms(1) by (simp add: pools_def pool_append)
  show ?thesis
    unfolding single_top_outfits_def Let_def
    apply (rule post_seq [OF post_for_each [where I = "\<lambda>st. all_wf items (combos st)"]])
      apply (simp add: assms)
    subgoal for b s
      using assms(1) top bs unfolding pools_def
      by (auto intro!: post_emit [where items = items and ts = "cl_tops_color env"
            and bs = "cl_bottoms_color env @ bottom_list"])
    subgoal for cs
      apply (cases cs)
      apply (simp only: prod.case)
      apply (rule post_seq [OF post_for_each [where I = "\<lambda>st. all_wf items (combos st)"]])
        apply simp
       apply (rule post_for_each [where I = "\<lambda>st. all_wf items (combos st)"])
        apply assumption
      using assms(1) unfolding pools_def
       apply (auto intro!: post_emit [where items = items and ts = top_list and bs = bottom_list]
          all_wf_slice_to)
      done
    done
qed

lemma post_no_color_outfits:
  assumes "pools items top_list bottom_list layer_list env" "all_wf items (combos st)"
  shows "post (no_color_outfits env top_list bottom_list layer_list n st) (all_wf items)"
  unfolding no_color_outfits_def
  apply (rule post_seq [OF post_for_each [where I = "\<lambda>st. all_wf items (combos st)"]])
    apply (simp add: assms)
   apply (rule post_for_each [where I = "\<lambda>st. all_wf items (combos st)"])
    apply assumption
  using assms(1) unfolding pools_def
   apply (auto intro!: post_emit [where items = items and ts = top_list and bs = bottom_list])[1]
  subgoal for cs
    apply (cases cs)
    apply (simp only: prod.case)
    apply (auto)
    apply (rule post_seq [OF post_for_each [where I = "\<lambda>st. all_wf items (combos st)"]])
      apply simp
     apply (rule post_for_each [where I = "\<lambda>st. all_wf items (combos st)"])
      apply assumption
    using assms(1) unfolding pools_def
     apply (auto intro!: post_emit [where items = items and ts = top_list and bs = bottom_list])
    done
  done

lemma post_avoid_color_outfits:
  assumes "pools items top_list bottom_list layer_list env" "all_wf items (combos st)"
  shows "post (avoid_color_outfits delta env top_list bottom_list layer_list n st) (all_wf items)"
  unfolding avoid_color_outfits_def
  apply (rule post_seq [OF post_for_each [where I = "\<lambda>st. all_wf items (combos st)"]])
    apply (simp add: assms)
   apply (rule post_for_each [where I = "\<lambda>st. all_wf items (combos st)"])
    apply assumption
  using assms(1) unfolding pools_def
   apply (auto intro!: post_emit [where items = items and ts = top_list and bs = bottom_list])
  done

lemma post_make_top_bottom_outfits:
  assumes "pools items top_list bottom_list layer_list env"
  shows "post (make_top_bottom_outfits delta env top_list bottom_list layer_list n prefer_color) (all_wf items)"
proof -
  let ?I = "\<lambda>cs :: ctl \<times> tb_state. all_wf items (combos (snd cs))"
  let ?st0 = "\<lparr>combos = [], used_tops = [], used_bottoms = [], used_pairs = [], bottom_used = []\<rparr>"
  have first: "post (if prefer_color \<and> (cl_tops_color env \<noteq> [] \<or> cl_bottoms_color env \<noteq> []) then
              rbind (color_tops_loop delta env bottom_list layer_list n ?st0)
                (\<lambda>(c, st). if c = Return then rret (Return, st)
                            else color_bottoms_loop delta env top_list layer_list n st)
            else rret (Next, ?st0)) ?I"
  proof (cases "prefer_color \<and> (cl_tops_color env \<noteq> [] \<or> cl_bottoms_color env \<noteq> [])")
    case True
    have "post (rbind (color_tops_loop delta env bottom_list layer_list n ?st0)
                (\<lambda>(c, st). if c = Return then rret (Return, st)
                            else color_bottoms_loop delta env top_list layer_list n st)) ?I"
      apply (rule post_seq [OF post_color_tops_loop [OF assms]])
       apply simp
      apply (auto intro: post_color_bottoms_loop [OF assms])
      done
    then show ?thesis using True by simp
  next
    case False
    then show ?thesis by auto
  qed
  show ?thesis
    unfolding make_top_bottom_outfits_def Let_def
    apply (rule post_seq [OF first])
    apply (auto intro!: post_single_top_outfits [OF assms] post_no_color_outfits [OF assms]
        post_avoid_color_outfits [OF assms])
    done
qed



lemma good_single: "pool items cats xs \<Longrightarrow> x \<in> set xs \<Longrightarrow> good_combo items [x]"
  by (auto simp: pool_def good_combo_def)

lemma good_one_piece_layer:
  assumes "pool items [''one-piece'', ''one_piece''] ops" "pool items [''layer''] ls" "x \<in> set ops" "l \<in> set ls"
  shows "good_combo items [x, l]"
  using assms by (auto simp: pool_def good_combo_def)

lemma post_one_piece_block:
  assumes "pool items [''one-piece'', ''one_piece''] one_pieces"
    "pool items [''one-piece'', ''one_piece''] one_pieces_color"
    "pool items [''layer''] layers" "pool items [''layer''] (cl_layers_color env)"
  shows "post (one_piece_block env gender' occasions one_pieces one_pieces_color layers)
           (\<lambda>ou. all_wf items (fst ou))"
proof -
  have a: "good_combo items [x]" if "x \<in> set one_pieces \<or> x \<in> set one_pieces_color" for x
    using that assms(1,2) by (auto intro: good_single)
  have b: "good_combo items ([x] @ [l])"
    if "x \<in> set one_pieces \<or> x \<in> set one_pieces_color" "l \<in> set layers \<or> l \<in> set (cl_layers_color env)" for x l
    using that assms by (auto intro: good_one_piece_layer)
  have wf: "all_wf items [mk_outfit ''one_piece'' c]" if "good_combo items c" for c
    using that by (simp add: all_wf_def well_formed_mk)
  show ?thesis
    unfolding one_piece_block_def Let_def
    using a b wf by (auto intro!: post_rbind post_choice split: if_splits)
qed

lemma post_combo_with_layer:
  assumes "pool items [''topwear''] ts" "pool items [''bottomwear''] bs" "pool items [''layer''] layers"
    "t \<in> set ts" "b \<in> set bs"
  shows "post (combo_with_layer layer_needed layers t b) (good_combo items)"
  unfolding combo_with_layer_def
  using good_top_bottom [OF assms(1,2,4,5)] good_top_bottom_layer [OF assms(1,2,3,4,5)]
  by (auto intro!: post_rbind post_choice)

lemma post_layered_block:
  assumes "pools items tops bottoms layers env" "all_wf items outfits'"
  shows "post (layered_block env tops bottoms layers outfits') (all_wf items)"
proof -
  have p: "pool items [''topwear''] tops" "pool items [''bottomwear''] bottoms"
    "pool items [''layer''] layers" "pool items [''layer''] (cl_layers_color env)"
    using assms(1) by (simp_all add: pools_def)
  have tb: "good_combo items [t, b]" if "t \<in> set tops" "b \<in> set bottoms" for t b
    using that p by (auto intro: good_top_bottom)
  have tbl: "good_combo items ([t, b] @ [l])"
    if "t \<in> set tops" "b \<in> set bottoms" "l \<in> set layers \<or> l \<in> set (cl_layers_color env)" for t b l
    using that p by (auto intro: good_top_bottom_layer)
  have body: "post
          (let combo = [t, b];
               lyr_choices = (if cl_layers_color env \<noteq> [] then cl_layers_color env else layers);
               avail_layers = filter (\<lambda>l. name l \<notin> set (map name combo)) lyr_choices
           in rbind
                (if avail_layers \<noteq> [] then rbind (choice avail_layers) (\<lambda>lyr. rret (combo @ [lyr]))
                 else rret combo)
                (\<lambda>combo.
                   let (outfits', added) =
                         (if \<not> list_ex (same_names combo) os
                          then (os @ [mk_outfit ''multi_piece'' combo], added + 1)
                          else (os, added))
                   in rret (if added \<ge> (2::nat) then Break else Next, (outfits', added))))
          (\<lambda>cs. all_wf items (fst (snd cs)))"
    if "t \<in> set tops" "b \<in> set bottoms" "all_wf items os" for t b os added
    unfolding Let_def
    using tb [OF that(1,2)] tbl [OF that(1,2)] that(3)
    by (auto intro!: post_rbind post_choice all_wf_snoc well_formed_mk split: if_splits)
  show ?thesis
    unfolding layered_block_def
    apply (cases "cl_layer_needed env \<and> tops \<noteq> [] \<and> bottoms \<noteq> [] \<and> layers \<noteq> []")
     apply (simp only: simp_thms if_True)
     apply (rule post_rbind)
     apply (rule post_shuffle)
     apply (rule post_seq [OF post_for_each [where I = "\<lambda>st. all_wf items (fst st)"]])
       apply (simp add: assms(2))
    subgoal for ys x s
      apply (cases x; cases s)
      apply (simp only: prod.case)
      apply (rule body)
        apply auto
      done
     apply (auto simp: assms(2))
    done
qed

lemma all_wf_add_swimwear:
  "pool items [''swimwear''] sws \<Longrightarrow> all_wf items os \<Longrightarrow> all_wf items (add_swimwear sws used os)"
proof (induction sws used os rule: add_swimwear.induct)
  case (1 used outfits')
  then show ?case by simp
next
  case (2 sw rest used outfits')
  have sw: "well_formed items (swim_outfit sw)"
    using "2.prems"(1) by (auto simp: swim_outfit_def pool_def intro!: well_formed_mk good_single [where xs = "[sw]" and cats = "[''swimwear'']"])
  have rest: "pool items [''swimwear''] rest"
    using "2.prems"(1) by (simp add: pool_def)
  show ?case
    using 2 sw rest by (auto simp: Let_def intro: all_wf_snoc)
qed

lemma post_reuse_pairs:
  assumes "pool items [''topwear''] tops" "pool items [''bottomwear''] bottoms" "pool items [''layer''] layers"
    "all_wf items outfits'"
  shows "post (reuse_pairs layer_needed tops bottoms layers outfits') (all_wf items)"
proof (cases "length outfits' < 3")
  case False
  then show ?thesis using assms(4) by (simp add: reuse_pairs_def)
next
  case True
  show ?thesis
    unfolding reuse_pairs_def
    apply (simp only: True if_True)
    apply (rule post_seq [OF post_for_each [where I = "\<lambda>st. all_wf items (fst st)"]])
      apply simp
     apply (rule post_seq [OF post_for_each [where I = "\<lambda>st. all_wf items (fst st)"]])
       apply assumption
    subgoal for t s b s'
      apply (cases s')
      apply (simp only: prod.case)
      apply (auto simp: Let_def intro!: post_seq [OF post_combo_with_layer [OF assms(1,2,3)]]
          all_wf_snoc well_formed_mk)
      done
     apply (auto intro!: all_wf_append all_wf_slice_to assms(4))
    done
qed

lemma post_final_fill:
  "pool items [''topwear''] tops \<Longrightarrow> pool items [''bottomwear''] bottoms \<Longrightarrow> pool items [''layer''] layers
   \<Longrightarrow> all_wf items outfits' \<Longrightarrow> post (final_fill layer_needed tops bottoms layers outfits') (all_wf items)"
proof (induction layer_needed tops bottoms layers outfits' rule: final_fill.induct)
  case (1 layer_needed tops bottoms layers outfits')
  show ?case
  proof (cases "length outfits' < 3")
    case False
    then show ?thesis using "1.prems" by (subst final_fill.simps) simp
  next
    case True
    show ?thesis
      apply (subst final_fill.simps)
      apply (simp only: True if_True)
      apply (rule post_rbind, rule post_choice)
      apply (rule post_rbind, rule post_choice)
      apply (rule post_seq [OF post_combo_with_layer [OF "1.prems"(1,2,3)]])
        apply assumption
       apply assumption
      apply (rule "1.IH" [OF True])
         apply (auto intro!: all_wf_snoc well_formed_mk "1.prems")
      done
  qed
qed



lemma pool_mono: "pool items cats xs \<Longrightarrow> set cats \<subseteq> set cats' \<Longrightarrow> pool items cats' xs"
  by (auto simp: pool_def)

lemma pool_filter_category: "pool items [cat] (filter_category items cat g)"
  by (auto simp: pool_def filter_category_def Let_def split: option.splits)

lemma pool_color_matched: "pool items cats xs \<Longrightarrow> pool items cats (color_matched delta colors avoid xs)"
  by (simp add: color_matched_def pool_filter)

lemma pool_select_by_style: "pool items cats xs \<Longrightarrow> pool items cats (select_by_style delta style_tags avoid xs)"
  by (simp add: select_by_style_def Let_def pool_filter)

lemma pool_party_pool: "pool items cats xs \<Longrightarrow> pool items cats (party_pool xs)"
  by (simp add: party_pool_def Let_def pool_filter)

lemma pool_prefer_color_matched:
  "pool items cats xs \<Longrightarrow> pool items cats (prefer_color_matched delta colors avoid xs)"
  by (simp add: prefer_color_matched_def Let_def pool_filter)

lemma pool_party_candidates:
  assumes "pool items [''topwear''] tops_all" "pool items [''bottomwear''] bottoms_all"
    "pool items [''topwear''] tops" "pool items [''bottomwear''] bottoms"
    "party_candidates style_tags tops_all bottoms_all tops bottoms = (party_tops, party_bottoms)"
  shows "pool items [''topwear''] party_tops \<and> pool items [''bottomwear''] party_bottoms"
  using assms by (auto simp: party_candidates_def Let_def pool_filter pool_party_pool split: if_splits)

lemma post_default_outfits:
  assumes op: "pool items [''one-piece'', ''one_piece''] one_pieces"
    and t: "pool items [''topwear''] tops" and b: "pool items [''bottomwear''] bottoms"
    and l: "pool items [''layer''] layers" and f: "set filtered \<subseteq> set items"
    and na: "\<not> is_active occasions"
  shows "post (default_outfits delta occasions style_tags colors avoid layer_needed gender' items filtered
                 one_pieces tops bottoms layers) (all_wf items)"
proof -
  define env where "env = \<lparr>cl_colors = colors, cl_style_tags = style_tags, cl_layer_needed = layer_needed,
                 cl_tops_color = color_matched delta colors avoid tops,
                 cl_bottoms_color = color_matched delta colors avoid bottoms,
                 cl_layers_color = color_matched delta colors avoid layers\<rparr>"
  have ps: "pools items tops bottoms layers env"
    using t b l by (simp add: pools_def env_def pool_color_matched)
  have lc: "pool items [''layer''] (cl_layers_color env)"
    using ps by (simp add: pools_def)
  have ln: "cl_layer_needed env = layer_needed"
    by (simp add: env_def)
  have sw: "pool items [''swimwear'']
              (if is_swimming occasions style_tags then filter_category items ''swimwear'' (Some gender')
               else filter (\<lambda>i. category i = ''swimwear'') filtered)"
    using f by (auto simp: pool_filter_category) (auto simp: pool_def)
  have second: "post (if needed > 0
            then rbind (make_top_bottom_outfits delta env tops bottoms layers needed False)
                   (\<lambda>combos'. rret (os @ combos'))
            else rret os) (all_wf items)" if "all_wf items os" for os and needed :: int
    using that
    by (auto intro!: post_seq [OF post_make_top_bottom_outfits [OF ps]] all_wf_append)
  show ?thesis
    unfolding default_outfits_def Let_def env_def [symmetric]
    apply (rule post_seq [OF post_one_piece_block [OF op pool_color_matched [OF op] l lc]])
    subgoal for ou
      apply (cases ou)
      apply (simp only: prod.case fst_conv)
      apply (rule post_seq [OF post_layered_block [OF ps]])
       apply assumption
      apply (rule post_seq [OF post_make_top_bottom_outfits [OF ps]])
      apply (rule post_seq [OF second])
       apply (rule all_wf_append)
        apply (rule all_wf_add_swimwear [OF sw])
        apply assumption
       apply assumption
      apply (rule post_seq [OF post_reuse_pairs [OF t b l]])
       apply assumption
      apply (rule post_seq [OF post_final_fill [OF t b l]])
       apply assumption
      apply (simp add: na all_wf_take)
      done
    done
qed



lemma all_wf_replicate_none: "all_wf items (replicate k none_outfit)"
  by (auto simp: all_wf_def well_formed_none)

lemma all_wf_party_one_piece_outfits:
  assumes "pool items [''one-piece'', ''one_piece''] one_pieces_color"
    "pool items [''topwear''] party_tops" "pool items [''bottomwear''] party_bottoms"
  shows "all_wf items (party_one_piece_outfits one_pieces_color party_tops party_bottoms)"
proof -
  have a: "all_wf items (map (\<lambda>op. mk_outfit ''one_piece'' [op]) (take 3 one_pieces_color))"
    using assms(1)
    by (auto simp: all_wf_def dest!: in_set_takeD intro!: well_formed_mk good_single [OF assms(1)])
  have b: "all_wf items (map (\<lambda>i. mk_outfit ''multi_piece''
                                   [party_tops ! 0, party_bottoms ! (i mod length party_bottoms)]) ks)"
    if "party_tops \<noteq> []" "party_bottoms \<noteq> []" for ks
    using that
    by (auto simp: all_wf_def intro!: well_formed_mk good_top_bottom [OF assms(2,3)])
  show ?thesis
    unfolding party_one_piece_outfits_def Let_def
    using a b by (auto intro!: all_wf_append)
qed

lemma post_party_bottoms_loop:
  assumes "pool items [''topwear''] ts" "pool items [''bottomwear''] party_bottoms" "pool items [''layer''] layers"
    "top' \<in> set ts"
  shows "post (party_bottoms_loop layer_needed layers top' party_bottoms) (\<lambda>cs. all_wf items (fst (snd cs)))"
  unfolding party_bottoms_loop_def
  apply (rule post_for_each [where I = "\<lambda>st. all_wf items (fst st)"])
   apply simp
  subgoal for b s
    apply (cases s)
    apply (simp only: prod.case)
    apply (auto simp: Let_def intro!: post_seq [OF post_combo_with_layer [OF assms(1,2,3,4)]]
        all_wf_snoc well_formed_mk)
    done
  done

lemma post_party_fill:
  "pool items [''topwear''] ts \<Longrightarrow> pool items [''bottomwear''] party_bottoms \<Longrightarrow> pool items [''layer''] layers
   \<Longrightarrow> top' \<in> set ts \<Longrightarrow> all_wf items outfits'
   \<Longrightarrow> post (party_fill layer_needed layers top' party_bottoms outfits') (all_wf items)"
proof (induction layer_needed layers top' party_bottoms outfits' rule: party_fill.induct)
  case (1 layer_needed layers top' party_bottoms outfits')
  show ?case
  proof (cases "length outfits' < 3")
    case False
    then show ?thesis using "1.prems" by (subst party_fill.simps) simp
  next
    case True
    show ?thesis
      apply (subst party_fill.simps)
      apply (simp only: True if_True)
      apply (rule post_rbind, rule post_choice)
      apply (rule post_seq [OF post_combo_with_layer [OF "1.prems"(1,2,3,4)]])
       apply assumption
      apply (rule "1.IH" [OF True])
           apply (auto intro!: all_wf_snoc well_formed_mk "1.prems")
      done
  qed
qed

lemma all_wf_zip_fill:
  "\<forall>(t, b) \<in> set ps. good_combo items [t, b] \<Longrightarrow> all_wf items os \<Longrightarrow> all_wf items (zip_fill ps os)"
  by (induction ps os rule: zip_fill.induct) (auto simp: Let_def intro!: all_wf_snoc well_formed_mk)

lemma post_party_color_outfits:
  assumes "pool items [''topwear''] tops_all" "pool items [''bottomwear''] bottoms_all"
    "pool items [''topwear''] party_tops" "pool items [''bottomwear''] party_bottoms"
    "pool items [''layer''] layers"
  shows "post (party_color_outfits style_tags layer_needed layers tops_all bottoms_all party_tops party_bottoms)
           (all_wf items)"
proof -
  let ?ft = "filter (any_tag_in [''ethnic'', ''traditional'']) tops_all"
  let ?fb = "filter (any_tag_in [''ethnic'', ''traditional'']) bottoms_all"
  have z: "\<forall>(t, b) \<in> set (zip ?ft ?fb). good_combo items [t, b]"
  proof (clarify)
    fix t b
    assume "(t, b) \<in> set (zip ?ft ?fb)"
    then have "t \<in> set tops_all" "b \<in> set bottoms_all"
      by (auto dest: set_zip_leftD set_zip_rightD)
    then show "good_combo items [t, b]"
      by (rule good_top_bottom [OF assms(1,2)])
  qed
  have first: "post (if party_tops \<noteq> [] \<and> party_bottoms \<noteq> [] then
          rbind (party_bottoms_loop layer_needed layers (party_tops ! 0) party_bottoms)
            (\<lambda>(c, outfits', used_bottoms').
               party_fill layer_needed layers (party_tops ! 0) party_bottoms outfits')
        else rret []) (all_wf items)"
  proof (cases "party_tops \<noteq> [] \<and> party_bottoms \<noteq> []")
    case True
    then have top: "party_tops ! 0 \<in> set party_tops" by simp
    have "post (rbind (party_bottoms_loop layer_needed layers (party_tops ! 0) party_bottoms)
            (\<lambda>(c, outfits', used_bottoms').
               party_fill layer_needed layers (party_tops ! 0) party_bottoms outfits')) (all_wf items)"
      apply (rule post_seq [OF post_party_bottoms_loop [OF assms(3,4,5) top]])
      apply (auto intro!: post_party_fill [OF assms(3,4,5) top])
      done
    then show ?thesis using True by simp
  next
    case False
    then show ?thesis by auto
  qed
  show ?thesis
    unfolding party_color_outfits_def Let_def
    apply (rule post_seq [OF first])
    using z apply (auto intro!: all_wf_zip_fill all_wf_replicate_none)
    done
qed

lemma cycle_pairs_wf:
  "\<forall>(t, b) \<in> set pairs_to_use. good_combo items [t, b] \<Longrightarrow> all_wf items os
   \<Longrightarrow> (case cycle_pairs pairs_to_use idx os of Inl e \<Rightarrow> e = ZeroDivisionError | Inr res \<Rightarrow> all_wf items res)"
proof (induction pairs_to_use idx os rule: cycle_pairs.induct)
  case (1 pairs_to_use idx outfits')
  show ?case
  proof (cases "length outfits' < 3")
    case False
    then show ?thesis using "1.prems" by (subst cycle_pairs.simps) simp
  next
    case True
    show ?thesis
    proof (cases "length pairs_to_use = 0")
      case z: True
      then show ?thesis using True by (subst cycle_pairs.simps) simp
    next
      case nz: False
      obtain t b where tb: "pairs_to_use ! (idx mod length pairs_to_use) = (t, b)"
        by (cases "pairs_to_use ! (idx mod length pairs_to_use)")
      have "idx mod length pairs_to_use < length pairs_to_use"
        using nz by simp
      then have "pairs_to_use ! (idx mod length pairs_to_use) \<in> set pairs_to_use"
        by (rule nth_mem)
      then have "(t, b) \<in> set pairs_to_use"
        using tb by simp
      then have g: "good_combo items [t, b]"
        using "1.prems"(1) by auto
      have "case cycle_pairs pairs_to_use (idx + 1) (outfits' @ [mk_outfit ''multi_piece'' [t, b]]) of
              Inl e \<Rightarrow> e = ZeroDivisionError | Inr res \<Rightarrow> all_wf items res"
        using "1.IH" [OF True nz tb [symmetric] "1.prems"(1)] "1.prems"(2) g
        by (auto intro!: all_wf_snoc well_formed_mk)
      then show ?thesis
        using True nz tb by (subst cycle_pairs.simps) simp
    qed
  qed
qed



lemma active_outfits_wf:
  assumes "pool items [''topwear''] tops" "pool items [''bottomwear''] bottoms"
  shows "case active_outfits delta colors avoid style_tags tops bottoms of
           Inl e \<Rightarrow> e = ZeroDivisionError | Inr res \<Rightarrow> all_wf items res"
proof -
  let ?all = "List.product (relevant style_tags tops) (relevant style_tags bottoms)"
  have g: "\<forall>(t, b) \<in> set ps. good_combo items [t, b]" if "set ps \<subseteq> set ?all" for ps
  proof (clarify)
    fix t b
    assume "(t, b) \<in> set ps"
    then have "t \<in> set tops" "b \<in> set bottoms"
      using that by (auto simp: relevant_def)
    then show "good_combo items [t, b]"
      by (rule good_top_bottom [OF assms])
  qed
  have c: "case cycle_pairs ps 0 [] of Inl e \<Rightarrow> e = ZeroDivisionError | Inr res \<Rightarrow> all_wf items res"
    if "set ps \<subseteq> set ?all" for ps
    using cycle_pairs_wf [OF g [OF that], of "[]" 0] by simp
  have d: "case (case cycle_pairs ps 0 [] of Inl e \<Rightarrow> Inl e | Inr outfits' \<Rightarrow> Inr (take 3 outfits')) of
             Inl e \<Rightarrow> e = ZeroDivisionError | Inr res \<Rightarrow> all_wf items res"
    if "set ps \<subseteq> set ?all" for ps
    using c [OF that] by (auto split: sum.splits intro: all_wf_take)
  show ?thesis
    unfolding active_outfits_def Let_def
    by (rule d) auto
qed

lemma all_wf_swim_fill:
  "pool items [''swimwear''] sws \<Longrightarrow> all_wf items os \<Longrightarrow> all_wf items (swim_fill sws used os)"
proof (induction sws arbitrary: used os)
  case Nil
  then show ?case by simp
next
  case (Cons sw rest)
  have sw: "well_formed items (swim_outfit sw)"
    using Cons.prems(1)
    by (auto simp: swim_outfit_def pool_def
        intro!: well_formed_mk good_single [where xs = "[sw]" and cats = "[''swimwear'']"])
  have rest: "pool items [''swimwear''] rest"
    using Cons.prems(1) by (simp add: pool_def)
  have "all_wf items (os @ [swim_outfit sw])"
    using Cons.prems(2) sw by (rule all_wf_snoc)
  then show ?case
    using Cons.IH [OF rest] Cons.prems(2) by (simp add: Let_def)
qed

lemma pad_none_eq: "pad_none os = os @ replicate (3 - length os) none_outfit"
proof (induction os rule: pad_none.induct)
  case (1 outfits')
  show ?case
  proof (cases "length outfits' < 3")
    case True
    then have "3 - length outfits' = Suc (3 - length (outfits' @ [none_outfit]))"
      by simp
    then show ?thesis
      using "1.IH" [OF True] True by (subst pad_none.simps) (simp add: replicate_app_Cons_same)
  next
    case False
    then show ?thesis by (subst pad_none.simps) simp
  qed
qed

lemma all_wf_pad_none: "all_wf items os \<Longrightarrow> all_wf items (pad_none os)"
  by (simp add: pad_none_eq all_wf_append all_wf_replicate_none)

lemma all_wf_swimming_outfits:
  assumes "pool items [''swimwear''] swimwear_items"
  shows "all_wf items (swimming_outfits delta colors avoid swimwear_items)"
proof -
  have m: "all_wf items (map swim_outfit xs)" if "set xs \<subseteq> set swimwear_items" for xs
    using that assms
    by (auto simp: all_wf_def swim_outfit_def intro!: well_formed_mk good_single [OF assms])
  show ?thesis
    unfolding swimming_outfits_def Let_def
    by (auto intro!: all_wf_pad_none all_wf_swim_fill [OF assms] m)
qed

lemma post_compose_outfits:
  "post (compose_outfits delta colors occasions avoid layer_needed style_tags items gender') (all_wf items)"
proof (cases "is_swimming occasions style_tags")
  case True
  then show ?thesis
    by (simp add: compose_outfits_def all_wf_swimming_outfits [OF pool_filter_category])
next
  case ns: False
  define one_pieces where "one_pieces =
               (if gender' = ''female''
                then filter_category items ''one-piece'' (Some ''female'')
                       @ filter_category items ''one_piece'' (Some ''female'')
                else [])"
  define tops_all where "tops_all = filter_category items ''topwear'' (Some gender')"
  define bottoms_all where "bottoms_all = filter_category items ''bottomwear'' (Some gender')"
  define tops where "tops = select_by_style delta style_tags avoid tops_all"
  define bottoms where "bottoms = select_by_style delta style_tags avoid bottoms_all"
  define layers where "layers = filter_category items ''layer'' (Some gender')"
  define filtered where "filtered = filter (any_tag_in style_tags) items"
  have op: "pool items [''one-piece'', ''one_piece''] one_pieces"
    unfolding one_pieces_def
    by (auto intro!: pool_append pool_mono [OF pool_filter_category])
  have ta: "pool items [''topwear''] tops_all" and ba: "pool items [''bottomwear''] bottoms_all"
    and l: "pool items [''layer''] layers"
    by (simp_all add: tops_all_def bottoms_all_def layers_def pool_filter_category)
  have t: "pool items [''topwear''] tops" and b: "pool items [''bottomwear''] bottoms"
    using ta ba by (simp_all add: tops_def bottoms_def pool_select_by_style)
  have f: "set filtered \<subseteq> set items"
    by (auto simp: filtered_def)
  show ?thesis
  proof (cases "is_active occasions")
    case True
    have "post (case active_outfits delta colors avoid style_tags tops bottoms of
                 Inl e \<Rightarrow> rraise e | Inr outfits' \<Rightarrow> rret outfits') (all_wf items)"
      using active_outfits_wf [OF t b, of delta colors avoid style_tags]
      by (auto split: sum.splits)
    then show ?thesis
      using ns True
      by (simp add: compose_outfits_def Let_def one_pieces_def tops_all_def bottoms_all_def tops_def
          bottoms_def layers_def filtered_def)
  next
    case na: False
    define formal_only where "formal_only = (strictly_formal occasions \<and> \<not> ethnic_style style_tags)"
    define tops' where "tops' = (if formal_only then filter (\<lambda>t. ''formal'' \<in> set (tags t)) tops else tops)"
    define bottoms' where "bottoms' = (if formal_only then filter (\<lambda>b. ''formal'' \<in> set (tags b)) bottoms else bottoms)"
    have t': "pool items [''topwear''] tops'" and b': "pool items [''bottomwear''] bottoms'"
      using t b by (simp_all add: tops'_def bottoms'_def pool_filter)
    have unfold: "compose_outfits delta colors occasions avoid layer_needed style_tags items gender' =
        (if is_party occasions then
                    (case party_candidates style_tags tops_all bottoms_all tops' bottoms' of
                       (party_tops, party_bottoms) \<Rightarrow>
                         if colors \<noteq> [] then
                           (let party_tops = prefer_color_matched delta colors avoid party_tops;
                                party_bottoms = prefer_color_matched delta colors avoid party_bottoms;
                                one_pieces_color =
                                  filter (\<lambda>op. color_match delta (tags op) colors avoid)
                                    (filter (any_tag_in party_priority_tags) one_pieces)
                            in if gender' = ''female'' \<and> one_pieces_color \<noteq> []
                               then rret (party_one_piece_outfits one_pieces_color party_tops party_bottoms)
                               else party_color_outfits style_tags layer_needed layers tops_all bottoms_all
                                      party_tops party_bottoms)
                         else default_outfits delta occasions style_tags colors avoid layer_needed gender'
                                items filtered one_pieces party_tops party_bottoms layers)
                  else default_outfits delta occasions style_tags colors avoid layer_needed gender'
                         items filtered one_pieces tops' bottoms' layers)"
      using ns na
      unfolding compose_outfits_def one_pieces_def tops_all_def bottoms_all_def tops_def
          bottoms_def layers_def filtered_def formal_only_def tops'_def bottoms'_def
      by (simp only: if_False Let_def)
    show ?thesis
    proof (cases "is_party occasions")
      case False
      then show ?thesis
        unfolding unfold using post_default_outfits [OF op t' b' l f na] by simp
    next
      case True
      obtain party_tops party_bottoms where pc:
        "party_candidates style_tags tops_all bottoms_all tops' bottoms' = (party_tops, party_bottoms)"
        by (cases "party_candidates style_tags tops_all bottoms_all tops' bottoms'")
      have pt: "pool items [''topwear''] party_tops" and pb: "pool items [''bottomwear''] party_bottoms"
        using pool_party_candidates [OF ta ba t' b' pc] by simp_all
      note ptc = pool_prefer_color_matched [OF pt, of delta colors avoid]
      note pbc = pool_prefer_color_matched [OF pb, of delta colors avoid]
      have opc: "pool items [''one-piece'', ''one_piece'']
                   (filter (\<lambda>op. color_match delta (tags op) colors avoid)
                                    (filter (any_tag_in party_priority_tags) one_pieces))"
        using op by (simp add: pool_filter)
      show ?thesis
        unfolding unfold
        using True pc post_default_outfits [OF op pt pb l f na]
          all_wf_party_one_piece_outfits [OF opc ptc pbc]
          post_party_color_outfits [OF ta ba ptc pbc l]
        by (simp add: Let_def)
    qed
  qed
qed

lemma postD: "post m Q \<Longrightarrow> m r = Inr (x, r') \<Longrightarrow> Q x"
  unfolding post_def by (drule spec [of _ r]) simp

lemma postE: "post m Q \<Longrightarrow> m r = Inl e \<Longrightarrow> e = IndexError \<or> e = ZeroDivisionError"
  unfolding post_def by (drule spec [of _ r]) simp

lemma post_recommend_outfits:
  assumes "USER_DB username = Some u"
  shows "post (recommend_outfits delta USER_DB wardrobe_db now prompt username)
           (\<lambda>res. all_wf (filter_by_profile wardrobe_db (preferences u)) (outfits res))"
proof -
  obtain colors occasions avoid layer_needed where
    e: "extract_prompt_requirements prompt = (colors, occasions, avoid, layer_needed)"
    by (cases "extract_prompt_requirements prompt")
  have d: "username \<in> dom USER_DB" using assms by auto
  show ?thesis
    unfolding recommend_outfits_def get_user_preferences_def Let_def
    using d assms e
    by (auto intro!: post_seq [OF post_compose_outfits] simp: mk_result_def)
qed

end
